theory Spec2Isabelle
  imports Main "HOL-Library.Word"
begin

unbundle bit_operations_syntax

section \<open>JavaScript strings and buffers\<close>

text \<open>
  A JavaScript string is a sequence of UTF-16 code units; a \<open>Buffer\<close> is a sequence of
  bytes; a \<open>number[]\<close> that holds integers is a list of integers.  String literals of the
  source are written \<open>str ''...''\<close>.
\<close>

type_synonym jschar = "16 word"
type_synonym jsstring = "jschar list"
type_synonym byte = "8 word"
type_synonym buffer = "byte list"

definition str :: "string \<Rightarrow> jsstring" where
  "str s = map of_char s"

text \<open>
  \<open>Buffer.from(s, 'utf8')\<close>: the UTF-8 encoding of a string.  A surrogate pair is one code
  point of four bytes, a surrogate without its partner is written as U+FFFD (EF BF BD).
\<close>

definition isHighSurrogate :: "jschar \<Rightarrow> bool" where
  "isHighSurrogate c = (0xD800 \<le> c \<and> c \<le> 0xDBFF)"

definition isLowSurrogate :: "jschar \<Rightarrow> bool" where
  "isLowSurrogate c = (0xDC00 \<le> c \<and> c \<le> 0xDFFF)"

definition utf8CodePoint :: "int \<Rightarrow> int list" where
  "utf8CodePoint cp =
     (if cp < 0x80 then [cp]
      else if cp < 0x800 then [0xC0 + cp div 64, 0x80 + cp mod 64]
      else if cp < 0x10000 then
        [0xE0 + cp div 4096, 0x80 + (cp div 64) mod 64, 0x80 + cp mod 64]
      else
        [0xF0 + cp div 262144, 0x80 + (cp div 4096) mod 64,
         0x80 + (cp div 64) mod 64, 0x80 + cp mod 64])"

fun utf8Bytes :: "jsstring \<Rightarrow> int list" where
  "utf8Bytes [] = []"
| "utf8Bytes [c] =
     (if isHighSurrogate c \<or> isLowSurrogate c then [0xEF, 0xBF, 0xBD]
      else utf8CodePoint (uint c))"
| "utf8Bytes (c # d # cs) =
     (if isHighSurrogate c \<and> isLowSurrogate d then
        utf8CodePoint (0x10000 + (uint c - 0xD800) * 1024 + (uint d - 0xDC00)) @ utf8Bytes cs
      else if isHighSurrogate c \<or> isLowSurrogate c then
        [0xEF, 0xBF, 0xBD] @ utf8Bytes (d # cs)
      else utf8CodePoint (uint c) @ utf8Bytes (d # cs))"

text \<open>\<open>Buffer.from(array)\<close>: every entry is stored modulo 256.\<close>

definition bufferFrom :: "int list \<Rightarrow> buffer" where
  "bufferFrom xs = map word_of_int xs"

section \<open>Protobuf encoding helpers (grpc-client.ts)\<close>

text \<open>
  \<open>encodeVarint\<close>: the source converts its argument to a BigInt and runs
  \<^verbatim>\<open>while (v > 127n) { bytes.push(Number(v & 0x7fn) | 0x80); v >>= 7n; } bytes.push(Number(v));\<close>
  The loop is \<open>encodeVarintLoop\<close>, with the array \<open>bytes\<close> as its accumulator.
\<close>

function encodeVarintLoop :: "int list \<Rightarrow> int \<Rightarrow> int list" where
  "encodeVarintLoop bytes v =
     (if v > 127 then encodeVarintLoop (bytes @ [(v AND 0x7f) OR 0x80]) (drop_bit 7 v)
      else bytes @ [v])"
  by pat_completeness auto
termination
  by (relation "measure (\<lambda>(bytes, v). nat v)") (auto simp: drop_bit_int_def)

declare encodeVarintLoop.simps [simp del]

definition encodeVarint :: "int \<Rightarrow> int list" where
  "encodeVarint v = encodeVarintLoop [] v"

text \<open>
  \<open>(fieldNum << 3) | wireType\<close>: the shift and the bitwise or of JavaScript work on the
  32-bit two's complement value of their operands.
\<close>

definition fieldTag :: "int \<Rightarrow> int \<Rightarrow> int" where
  "fieldTag fieldNum wireType =
     sint (push_bit 3 (word_of_int fieldNum :: 32 word) OR word_of_int wireType)"

definition encodeString :: "int \<Rightarrow> jsstring \<Rightarrow> int list" where
  "encodeString fieldNum s =
     (let strBytes = utf8Bytes s
      in [fieldTag fieldNum 2] @ encodeVarint (int (length strBytes)) @ strBytes)"

definition encodeMessage :: "int \<Rightarrow> int list \<Rightarrow> int list" where
  "encodeMessage fieldNum data = [fieldTag fieldNum 2] @ encodeVarint (int (length data)) @ data"

definition encodeVarintField :: "int \<Rightarrow> int \<Rightarrow> int list" where
  "encodeVarintField fieldNum v = [fieldTag fieldNum 0] @ encodeVarint v"

text \<open>
  The standard varint decoder, to state the round trip: it reads bytes up to the first one
  without the continuation bit and returns the value with the unread rest.
\<close>

fun decodeVarint :: "int list \<Rightarrow> (int \<times> int list) option" where
  "decodeVarint [] = None"
| "decodeVarint (b # bs) =
     (if b AND 0x80 = 0 then Some (b, bs)
      else (case decodeVarint bs of
              None \<Rightarrow> None
            | Some (v, rest) \<Rightarrow> Some ((b AND 0x7f) + push_bit 7 v, rest)))"

text \<open>The sum of the 7-bit groups, \<open>(b\<^sub>i & 0x7F) << 7 i\<close>.\<close>

fun varintValue :: "int list \<Rightarrow> int" where
  "varintValue [] = 0"
| "varintValue (b # bs) = (b AND 0x7f) + push_bit 7 (varintValue bs)"

section \<open>Request building (grpc-client.ts)\<close>

text \<open>
  An exception of the runtime is a value of \<open>js_error\<close>; a function that can throw
  returns \<open>js_error + 'a\<close>, with \<open>Inl\<close> for the exception.
\<close>

datatype js_error = RangeError | TypeError | SyntaxError

text \<open>
  The values the request builder reads from its environment, in the order of the calls:
  \<open>Date.now()\<close> and \<open>crypto.randomUUID()\<close> in \<open>encodeMetadata\<close>, two more
  \<open>crypto.randomUUID()\<close> in \<open>encodeChatMessage\<close>, and \<open>Date.now()\<close> in
  \<open>encodeTimestamp\<close>.
\<close>

record request_env =
  requestNow :: int
  sessionUUID :: jsstring
  messageUUID :: jsstring
  conversationUUID :: jsstring
  timestampNow :: int

datatype chat_role = RoleUser | RoleAssistant | RoleSystem | RoleTool

record ChatMessage =
  role :: chat_role
  content :: jsstring

definition encodeMetadata :: "request_env \<Rightarrow> jsstring \<Rightarrow> jsstring \<Rightarrow> int list" where
  "encodeMetadata env apiKey version =
     (let requestId = requestNow env;
          sessionId = sessionUUID env
      in encodeString 1 (str ''windsurf-next'')
       @ encodeString 2 version
       @ encodeString 3 apiKey
       @ encodeString 4 (str ''en'')
       @ encodeString 7 version
       @ encodeVarintField 9 requestId
       @ encodeString 10 sessionId
       @ encodeString 12 (str ''windsurf''))"

text \<open>
  \<open>encodeTimestamp\<close>: \<open>Math.floor(now / 1000)\<close> and \<open>(now % 1000) * 1000000\<close>; the
  remainder of JavaScript has the sign of \<open>now\<close>.
\<close>

definition jsRemainder :: "int \<Rightarrow> int \<Rightarrow> int" where
  "jsRemainder a b = (if a < 0 then - ((- a) mod \<bar>b\<bar>) else a mod \<bar>b\<bar>)"

definition encodeTimestamp :: "request_env \<Rightarrow> int list" where
  "encodeTimestamp env =
     (let now = timestampNow env;
          seconds = now div 1000;
          nanos = jsRemainder now 1000 * 1000000
      in encodeVarintField 1 seconds @ encodeVarintField 2 nanos)"

definition encodeIntentGeneric :: "jsstring \<Rightarrow> int list" where
  "encodeIntentGeneric t = encodeString 1 t"

definition encodeChatMessageIntent :: "jsstring \<Rightarrow> int list" where
  "encodeChatMessageIntent t = (let generic = encodeIntentGeneric t in encodeMessage 1 generic)"

definition encodeChatMessage :: "request_env \<Rightarrow> int \<Rightarrow> jsstring \<Rightarrow> int list" where
  "encodeChatMessage env source t =
     (let intent = encodeChatMessageIntent t;
          msgId = messageUUID env;
          convId = conversationUUID env;
          timestamp = encodeTimestamp env
      in encodeString 1 msgId
       @ encodeVarintField 2 source
       @ encodeMessage 3 timestamp
       @ encodeString 4 convId
       @ encodeMessage 5 intent)"

text \<open>
  \<open>messages.filter((m) => m.role === 'user').pop()\<close> is the last element of the filtered
  array, or \<open>undefined\<close>; \<open>lastUserMessage?.content || ''\<close> is the empty string when
  there is no such message or its content is empty.
\<close>

definition arrayPop :: "'a list \<Rightarrow> 'a option" where
  "arrayPop xs = (if xs = [] then None else Some (last xs))"

definition chatPrompt :: "ChatMessage list \<Rightarrow> jsstring" where
  "chatPrompt messages =
     (let lastUserMessage = arrayPop (filter (\<lambda>m. role m = RoleUser) messages)
      in case lastUserMessage of
           None \<Rightarrow> []
         | Some m \<Rightarrow> if content m = [] then [] else content m)"

text \<open>
  The array \<open>request\<close> of \<open>buildChatRequest\<close>.  \<open>userSource\<close> is the constant
  \<open>ChatMessageSource.USER\<close> of types.ts, a file that is not among the sources: it is a
  parameter here.
\<close>

definition chatRequest ::
  "int \<Rightarrow> request_env \<Rightarrow> jsstring \<Rightarrow> jsstring \<Rightarrow> int \<Rightarrow> ChatMessage list \<Rightarrow> int list" where
  "chatRequest userSource env apiKey version modelEnum messages =
     (let metadata = encodeMetadata env apiKey version;
          prompt = chatPrompt messages;
          chatMessage = encodeChatMessage env userSource prompt
      in encodeMessage 1 metadata
       @ encodeMessage 2 chatMessage
       @ encodeVarintField 4 modelEnum)"

text \<open>
  The buffer operations of the framing.  \<open>Buffer.alloc(n)\<close> is \<open>n\<close> zero bytes.
  \<open>buf.writeUInt32BE(value, offset)\<close> throws a \<open>RangeError\<close> unless
  \<open>0 \<le> value \<le> 2\<^sup>3\<^sup>2 - 1\<close> and the four bytes fit; it stores \<open>value\<close>,
  \<open>value >>> 8\<close>, \<open>value >>> 16\<close> and \<open>value >>> 24\<close>, each modulo 256, from the last
  byte to the first.  \<open>source.copy(target, targetStart)\<close> copies as many bytes of
  \<open>source\<close> as fit into \<open>target\<close> from \<open>targetStart\<close> on.
\<close>

definition bufferAlloc :: "nat \<Rightarrow> buffer" where
  "bufferAlloc n = replicate n 0"

definition writeUInt32BE :: "buffer \<Rightarrow> int \<Rightarrow> nat \<Rightarrow> js_error + buffer" where
  "writeUInt32BE buf v offset =
     (if v < 0 \<or> v > 4294967295 \<or> length buf < offset + 4 then Inl RangeError
      else Inr (buf[offset + 3 := word_of_int v,
                    offset + 2 := word_of_int (v div 256),
                    offset + 1 := word_of_int (v div 65536),
                    offset := word_of_int (v div 16777216)]))"

definition bufferCopy :: "buffer \<Rightarrow> buffer \<Rightarrow> nat \<Rightarrow> buffer" where
  "bufferCopy source target targetStart =
     (let n = min (length source) (length target - targetStart)
      in take targetStart target @ take n source @ drop (targetStart + n) target)"

definition buildChatRequest ::
  "int \<Rightarrow> request_env \<Rightarrow> jsstring \<Rightarrow> jsstring \<Rightarrow> int \<Rightarrow> ChatMessage list
     \<Rightarrow> js_error + buffer" where
  "buildChatRequest userSource env apiKey version modelEnum messages =
     (let request = chatRequest userSource env apiKey version modelEnum messages;
          payload = bufferFrom request;
          frame0 = bufferAlloc (5 + length payload);
          frame1 = frame0[0 := 0]
      in case writeUInt32BE frame1 (int (length payload)) 1 of
           Inl e \<Rightarrow> Inl e
         | Inr frame2 \<Rightarrow> Inr (bufferCopy payload frame2 5))"

text \<open>
  To state the framing: the unsigned 32-bit big-endian integer that four bytes hold
  (\<open>buf.readUInt32BE\<close>).
\<close>

definition readUInt32BE :: "buffer \<Rightarrow> nat \<Rightarrow> nat" where
  "readUInt32BE buf offset =
     unat (buf ! offset) * 16777216 + unat (buf ! (offset + 1)) * 65536
       + unat (buf ! (offset + 2)) * 256 + unat (buf ! (offset + 3))"

text \<open>
  The prompt as the specification words it: the content of the last message whose role is
  user, and the empty string when there is none.
\<close>

fun lastUserText :: "ChatMessage list \<Rightarrow> jsstring" where
  "lastUserText [] = []"
| "lastUserText (m # ms) =
     (if \<exists>x \<in> set ms. role x = RoleUser then lastUserText ms
      else if role m = RoleUser then content m
      else [])"

section \<open>String primitives of the runtime\<close>

text \<open>
  The code unit of an ASCII character, to write the characters the source names.
\<close>

definition cu :: "char \<Rightarrow> jschar" where
  "cu c = of_char c"

text \<open>
  White space of ECMAScript (\<open>WhiteSpace\<close> and \<open>LineTerminator\<close>): what
  \<open>String.prototype.trim\<close> strips and what \<open>\s\<close> matches in a regular expression.
\<close>

definition isWhiteSpace :: "jschar \<Rightarrow> bool" where
  "isWhiteSpace c =
     (c = 0x09 \<or> c = 0x0A \<or> c = 0x0B \<or> c = 0x0C \<or> c = 0x0D \<or> c = 0x20 \<or> c = 0xA0
      \<or> c = 0x1680 \<or> (0x2000 \<le> c \<and> c \<le> 0x200A) \<or> c = 0x2028 \<or> c = 0x2029
      \<or> c = 0x202F \<or> c = 0x205F \<or> c = 0x3000 \<or> c = 0xFEFF)"

definition isDigit :: "jschar \<Rightarrow> bool" where
  "isDigit c = (cu CHR ''0'' \<le> c \<and> c \<le> cu CHR ''9'')"

definition trim :: "jsstring \<Rightarrow> jsstring" where
  "trim s = rev (dropWhile isWhiteSpace (rev (dropWhile isWhiteSpace s)))"

text \<open>Two characters have two code units.\<close>

lemma unat_of_char: "unat (of_char c :: jschar) = of_char c"
proof -
  have "(of_char c :: nat) < 256"
    by (metis of_char_mod_256 mod_less_divisor zero_less_numeral)
  also have "(256::nat) < 2 ^ LENGTH(16)" by simp
  finally have "(of_char c :: nat) < 2 ^ LENGTH(16)" .
  then have "unat (word_of_nat (of_char c) :: jschar) = of_char c"
    by (simp add: unat_of_nat)
  then show ?thesis by (simp add: of_nat_of_char)
qed

lemma cu_eq_iff: "cu c = cu d \<longleftrightarrow> c = d"
proof
  assume "cu c = cu d"
  then have "unat (of_char c :: jschar) = unat (of_char d :: jschar)" by (simp add: cu_def)
  then have "(of_char c :: nat) = of_char d" by (simp only: unat_of_char)
  then show "c = d" by simp
qed simp

lemma str_eq_iff: "str a = str b \<longleftrightarrow> a = b"
proof -
  have "inj (of_char :: char \<Rightarrow> jschar)"
    using cu_eq_iff by (auto simp: inj_def cu_def)
  then show ?thesis
    by (simp add: str_def inj_eq)
qed

section \<open>Response parsing (grpc-client.ts)\<close>

text \<open>
  \<open>.replace(/[^\x20-\x7E\n]/g, ' ')\<close>: every code unit outside the printable ASCII range
  that is not a line feed becomes a space.
\<close>

definition replaceNonPrintable :: "jsstring \<Rightarrow> jsstring" where
  "replaceNonPrintable s =
     map (\<lambda>c. if (0x20 \<le> c \<and> c \<le> 0x7E) \<or> c = 0x0A then c else cu CHR '' '') s"

text \<open>
  \<open>readable.match(/\*\s*([^0]+)/)\<close>.  At an asterisk, \<open>\s*\<close> takes all the white space
  that follows and \<open>[^0]+\<close> all the code units up to the next \<open>0\<close>.  When there is none
  to take (a \<open>0\<close> or the end comes next), the matcher backtracks: \<open>\s*\<close> gives its last code
  unit to the group, and without white space the match at this asterisk fails.  The result
  is the array of the match and its group.
\<close>

definition markerMatchAt :: "jsstring \<Rightarrow> jsstring list option" where
  "markerMatchAt s =
     (case s of
        [] \<Rightarrow> None
      | c # rest \<Rightarrow>
          if c \<noteq> cu CHR ''*'' then None
          else
            (let ws = takeWhile isWhiteSpace rest;
                 after = dropWhile isWhiteSpace rest;
                 g = takeWhile (\<lambda>x. x \<noteq> cu CHR ''0'') after
             in if g \<noteq> [] then Some [c # ws @ g, g]
                else if ws \<noteq> [] then Some [c # ws, [last ws]]
                else None))"

fun markerMatch :: "jsstring \<Rightarrow> jsstring list option" where
  "markerMatch [] = None"
| "markerMatch (c # cs) =
     (case markerMatchAt (c # cs) of
        Some groups \<Rightarrow> Some groups
      | None \<Rightarrow> markerMatch cs)"

text \<open>
  \<open>readable.split(/\s{2,}/)\<close>: the string is cut at every maximal run of two or more
  white-space code units; the empty string gives the array of one empty string.
\<close>

function splitLoop :: "jsstring \<Rightarrow> jsstring \<Rightarrow> jsstring list" where
  "splitLoop part [] = [part]"
| "splitLoop part (c # cs) =
     (if isWhiteSpace c \<and> cs \<noteq> [] \<and> isWhiteSpace (hd cs)
      then part # splitLoop [] (dropWhile isWhiteSpace cs)
      else splitLoop (part @ [c]) cs)"
  by pat_completeness auto
termination
  by (relation "measure (\<lambda>(part, s). length s)")
     (auto intro: le_imp_less_Suc length_dropWhile_le)

definition splitOnSpaces :: "jsstring \<Rightarrow> jsstring list" where
  "splitOnSpaces s = splitLoop [] s"

text \<open>
  The test of the loop over the parts:
  \<open>part.length > 0 && !part.includes('-') && !part.match(/^[a-f0-9-]+$/i)\<close>, and
  \<open>part.replace(/^[\s\d*]+/, '').trim()\<close>.
\<close>

definition isHexOrDash :: "jschar \<Rightarrow> bool" where
  "isHexOrDash c =
     ((cu CHR ''a'' \<le> c \<and> c \<le> cu CHR ''f'') \<or> (cu CHR ''A'' \<le> c \<and> c \<le> cu CHR ''F'')
      \<or> isDigit c \<or> c = cu CHR ''-'')"

definition matchesHexDash :: "jsstring \<Rightarrow> bool" where
  "matchesHexDash part = (part \<noteq> [] \<and> list_all isHexOrDash part)"

definition meaningfulPart :: "jsstring \<Rightarrow> bool" where
  "meaningfulPart part =
     (length part > 0 \<and> \<not> List.member part (cu CHR ''-'') \<and> \<not> matchesHexDash part)"

definition cleanPart :: "jsstring \<Rightarrow> jsstring" where
  "cleanPart part =
     trim (dropWhile (\<lambda>c. isWhiteSpace c \<or> isDigit c \<or> c = cu CHR ''*'') part)"

fun firstMeaningful :: "jsstring list \<Rightarrow> jsstring" where
  "firstMeaningful [] = []"
| "firstMeaningful (part # parts) =
     (if meaningfulPart part
      then (let cleaned = cleanPart part
            in if length cleaned > 0 then cleaned else firstMeaningful parts)
      else firstMeaningful parts)"

text \<open>
  \<open>extractTextFromChunk\<close>.  \<open>chunk.toString('utf8')\<close> is the UTF-8 decoder of the runtime,
  the parameter \<open>decode\<close>.  \<open>textMatch[1].trim()\<close> throws a \<open>TypeError\<close> when the array has
  no entry 1.
\<close>

definition arrayAt :: "'a list \<Rightarrow> nat \<Rightarrow> 'a option" where
  "arrayAt xs i = (if i < length xs then Some (xs ! i) else None)"

definition readableText :: "(buffer \<Rightarrow> jsstring) \<Rightarrow> buffer \<Rightarrow> jsstring" where
  "readableText decode chunk = trim (replaceNonPrintable (decode chunk))"

definition extractTextFromChunk :: "(buffer \<Rightarrow> jsstring) \<Rightarrow> buffer \<Rightarrow> js_error + jsstring" where
  "extractTextFromChunk decode chunk =
     (let readable = readableText decode chunk;
          textMatch = markerMatch readable
      in case textMatch of
           Some groups \<Rightarrow>
             (case arrayAt groups 1 of
                None \<Rightarrow> Inl TypeError
              | Some g \<Rightarrow> Inr (trim g))
         | None \<Rightarrow>
             (let parts = splitOnSpaces readable
              in Inr (firstMeaningful parts)))"

text \<open>
  On a chunk of bytes below 0x80 the decoder of the runtime is \<open>decodeAscii\<close>; a byte that
  stands alone outside that range is decoded as U+FFFD.
\<close>

definition decodeAscii :: "buffer \<Rightarrow> jsstring" where
  "decodeAscii chunk = map (\<lambda>b. if b < 0x80 then ucast b else 0xFFFD) chunk"

section \<open>Model registry (models.ts)\<close>

text \<open>
  \<open>ModelEnum\<close> is declared in types.ts, a file that is not among the sources.  A member
  is modelled by its identifier: \<open>ModelEnum ''GPT_5''\<close> is \<open>ModelEnum.GPT_5\<close>.  The
  number behind a member is not used; two identifiers are two members.
\<close>

datatype ModelEnumValue = ModelEnum string

text \<open>
  \<open>MODEL_NAME_TO_ENUM\<close>, in the order of the source; the keys are ASCII literals.
\<close>

definition MODEL_NAME_TO_ENUM :: "(string \<times> ModelEnumValue) list" where
  "MODEL_NAME_TO_ENUM =
    [(''claude-3-opus'', ModelEnum ''CLAUDE_3_OPUS_20240229''),
     (''claude-3-opus-20240229'', ModelEnum ''CLAUDE_3_OPUS_20240229''),
     (''claude-3-sonnet'', ModelEnum ''CLAUDE_3_SONNET_20240229''),
     (''claude-3-sonnet-20240229'', ModelEnum ''CLAUDE_3_SONNET_20240229''),
     (''claude-3-haiku'', ModelEnum ''CLAUDE_3_HAIKU_20240307''),
     (''claude-3-haiku-20240307'', ModelEnum ''CLAUDE_3_HAIKU_20240307''),
     (''claude-3.5-sonnet'', ModelEnum ''CLAUDE_3_5_SONNET_20241022''),
     (''claude-3-5-sonnet'', ModelEnum ''CLAUDE_3_5_SONNET_20241022''),
     (''claude-3-5-sonnet-20241022'', ModelEnum ''CLAUDE_3_5_SONNET_20241022''),
     (''claude-3.5-haiku'', ModelEnum ''CLAUDE_3_5_HAIKU_20241022''),
     (''claude-3-5-haiku'', ModelEnum ''CLAUDE_3_5_HAIKU_20241022''),
     (''claude-3-5-haiku-20241022'', ModelEnum ''CLAUDE_3_5_HAIKU_20241022''),
     (''claude-3.7-sonnet'', ModelEnum ''CLAUDE_3_7_SONNET_20250219''),
     (''claude-3-7-sonnet'', ModelEnum ''CLAUDE_3_7_SONNET_20250219''),
     (''claude-3-7-sonnet-20250219'', ModelEnum ''CLAUDE_3_7_SONNET_20250219''),
     (''claude-3.7-sonnet-thinking'', ModelEnum ''CLAUDE_3_7_SONNET_20250219_THINKING''),
     (''claude-3-7-sonnet-thinking'', ModelEnum ''CLAUDE_3_7_SONNET_20250219_THINKING''),
     (''claude-4-opus'', ModelEnum ''CLAUDE_4_OPUS''),
     (''claude-4-opus-thinking'', ModelEnum ''CLAUDE_4_OPUS_THINKING''),
     (''claude-4-sonnet'', ModelEnum ''CLAUDE_4_SONNET''),
     (''claude-4-sonnet-thinking'', ModelEnum ''CLAUDE_4_SONNET_THINKING''),
     (''claude-4.1-opus'', ModelEnum ''CLAUDE_4_1_OPUS''),
     (''claude-4-1-opus'', ModelEnum ''CLAUDE_4_1_OPUS''),
     (''claude-4.1-opus-thinking'', ModelEnum ''CLAUDE_4_1_OPUS_THINKING''),
     (''claude-4-1-opus-thinking'', ModelEnum ''CLAUDE_4_1_OPUS_THINKING''),
     (''claude-4.5-sonnet'', ModelEnum ''CLAUDE_4_5_SONNET''),
     (''claude-4-5-sonnet'', ModelEnum ''CLAUDE_4_5_SONNET''),
     (''claude-4.5-sonnet-thinking'', ModelEnum ''CLAUDE_4_5_SONNET_THINKING''),
     (''claude-4-5-sonnet-thinking'', ModelEnum ''CLAUDE_4_5_SONNET_THINKING''),
     (''claude-4.5-sonnet-1m'', ModelEnum ''CLAUDE_4_5_SONNET_1M''),
     (''claude-4-5-sonnet-1m'', ModelEnum ''CLAUDE_4_5_SONNET_1M''),
     (''claude-4.5-opus'', ModelEnum ''CLAUDE_4_5_OPUS''),
     (''claude-4-5-opus'', ModelEnum ''CLAUDE_4_5_OPUS''),
     (''claude-4.5-opus-thinking'', ModelEnum ''CLAUDE_4_5_OPUS_THINKING''),
     (''claude-4-5-opus-thinking'', ModelEnum ''CLAUDE_4_5_OPUS_THINKING''),
     (''claude-code'', ModelEnum ''CLAUDE_CODE''),
     (''gpt-4'', ModelEnum ''GPT_4''),
     (''gpt-4-turbo'', ModelEnum ''GPT_4_1106_PREVIEW''),
     (''gpt-4-1106-preview'', ModelEnum ''GPT_4_1106_PREVIEW''),
     (''gpt-4o'', ModelEnum ''GPT_4O_2024_08_06''),
     (''gpt-4o-2024-08-06'', ModelEnum ''GPT_4O_2024_08_06''),
     (''gpt-4o-mini'', ModelEnum ''GPT_4O_MINI_2024_07_18''),
     (''gpt-4o-mini-2024-07-18'', ModelEnum ''GPT_4O_MINI_2024_07_18''),
     (''gpt-4.5'', ModelEnum ''GPT_4_5''),
     (''gpt-4-5'', ModelEnum ''GPT_4_5''),
     (''gpt-4.1'', ModelEnum ''GPT_4_1_2025_04_14''),
     (''gpt-4-1'', ModelEnum ''GPT_4_1_2025_04_14''),
     (''gpt-4.1-mini'', ModelEnum ''GPT_4_1_MINI_2025_04_14''),
     (''gpt-4-1-mini'', ModelEnum ''GPT_4_1_MINI_2025_04_14''),
     (''gpt-4.1-nano'', ModelEnum ''GPT_4_1_NANO_2025_04_14''),
     (''gpt-4-1-nano'', ModelEnum ''GPT_4_1_NANO_2025_04_14''),
     (''gpt-5'', ModelEnum ''GPT_5''),
     (''gpt-5-nano'', ModelEnum ''GPT_5_NANO''),
     (''gpt-5-low'', ModelEnum ''GPT_5_LOW''),
     (''gpt-5-high'', ModelEnum ''GPT_5_HIGH''),
     (''gpt-5-codex'', ModelEnum ''GPT_5_CODEX''),
     (''gpt-5.2'', ModelEnum ''GPT_5_2_MEDIUM''),
     (''gpt-5-2'', ModelEnum ''GPT_5_2_MEDIUM''),
     (''gpt-5.2-low'', ModelEnum ''GPT_5_2_LOW''),
     (''gpt-5-2-low'', ModelEnum ''GPT_5_2_LOW''),
     (''gpt-5.2-high'', ModelEnum ''GPT_5_2_HIGH''),
     (''gpt-5-2-high'', ModelEnum ''GPT_5_2_HIGH''),
     (''gpt-5.2-xhigh'', ModelEnum ''GPT_5_2_XHIGH''),
     (''gpt-5-2-xhigh'', ModelEnum ''GPT_5_2_XHIGH''),
     (''o1'', ModelEnum ''O1''),
     (''o1-mini'', ModelEnum ''O1_MINI''),
     (''o1-preview'', ModelEnum ''O1_PREVIEW''),
     (''o3'', ModelEnum ''O3''),
     (''o3-mini'', ModelEnum ''O3_MINI''),
     (''o3-low'', ModelEnum ''O3_LOW''),
     (''o3-high'', ModelEnum ''O3_HIGH''),
     (''o3-pro'', ModelEnum ''O3_PRO''),
     (''o3-pro-low'', ModelEnum ''O3_PRO_LOW''),
     (''o3-pro-high'', ModelEnum ''O3_PRO_HIGH''),
     (''o4-mini'', ModelEnum ''O4_MINI''),
     (''o4-mini-low'', ModelEnum ''O4_MINI_LOW''),
     (''o4-mini-high'', ModelEnum ''O4_MINI_HIGH''),
     (''gemini-1.0-pro'', ModelEnum ''GEMINI_1_0_PRO''),
     (''gemini-1-0-pro'', ModelEnum ''GEMINI_1_0_PRO''),
     (''gemini-1.5-pro'', ModelEnum ''GEMINI_1_5_PRO''),
     (''gemini-1-5-pro'', ModelEnum ''GEMINI_1_5_PRO''),
     (''gemini-2.0-flash'', ModelEnum ''GEMINI_2_0_FLASH''),
     (''gemini-2-0-flash'', ModelEnum ''GEMINI_2_0_FLASH''),
     (''gemini-2.5-pro'', ModelEnum ''GEMINI_2_5_PRO''),
     (''gemini-2-5-pro'', ModelEnum ''GEMINI_2_5_PRO''),
     (''gemini-2.5-flash'', ModelEnum ''GEMINI_2_5_FLASH''),
     (''gemini-2-5-flash'', ModelEnum ''GEMINI_2_5_FLASH''),
     (''gemini-2.5-flash-thinking'', ModelEnum ''GEMINI_2_5_FLASH_THINKING''),
     (''gemini-2-5-flash-thinking'', ModelEnum ''GEMINI_2_5_FLASH_THINKING''),
     (''gemini-2.5-flash-lite'', ModelEnum ''GEMINI_2_5_FLASH_LITE''),
     (''gemini-2-5-flash-lite'', ModelEnum ''GEMINI_2_5_FLASH_LITE''),
     (''gemini-3.0-pro-low'', ModelEnum ''GEMINI_3_0_PRO_LOW''),
     (''gemini-3-0-pro-low'', ModelEnum ''GEMINI_3_0_PRO_LOW''),
     (''gemini-3.0-pro-high'', ModelEnum ''GEMINI_3_0_PRO_HIGH''),
     (''gemini-3-0-pro-high'', ModelEnum ''GEMINI_3_0_PRO_HIGH''),
     (''deepseek-v3'', ModelEnum ''DEEPSEEK_V3''),
     (''deepseek-v3-2'', ModelEnum ''DEEPSEEK_V3_2''),
     (''deepseek-r1'', ModelEnum ''DEEPSEEK_R1''),
     (''deepseek-r1-fast'', ModelEnum ''DEEPSEEK_R1_FAST''),
     (''deepseek-r1-slow'', ModelEnum ''DEEPSEEK_R1_SLOW''),
     (''llama-3.1-8b'', ModelEnum ''LLAMA_3_1_8B_INSTRUCT''),
     (''llama-3-1-8b'', ModelEnum ''LLAMA_3_1_8B_INSTRUCT''),
     (''llama-3.1-70b'', ModelEnum ''LLAMA_3_1_70B_INSTRUCT''),
     (''llama-3-1-70b'', ModelEnum ''LLAMA_3_1_70B_INSTRUCT''),
     (''llama-3.1-405b'', ModelEnum ''LLAMA_3_1_405B_INSTRUCT''),
     (''llama-3-1-405b'', ModelEnum ''LLAMA_3_1_405B_INSTRUCT''),
     (''llama-3.3-70b'', ModelEnum ''LLAMA_3_3_70B_INSTRUCT''),
     (''llama-3-3-70b'', ModelEnum ''LLAMA_3_3_70B_INSTRUCT''),
     (''llama-3.3-70b-r1'', ModelEnum ''LLAMA_3_3_70B_INSTRUCT_R1''),
     (''llama-3-3-70b-r1'', ModelEnum ''LLAMA_3_3_70B_INSTRUCT_R1''),
     (''qwen-2.5-7b'', ModelEnum ''QWEN_2_5_7B_INSTRUCT''),
     (''qwen-2-5-7b'', ModelEnum ''QWEN_2_5_7B_INSTRUCT''),
     (''qwen-2.5-32b'', ModelEnum ''QWEN_2_5_32B_INSTRUCT''),
     (''qwen-2-5-32b'', ModelEnum ''QWEN_2_5_32B_INSTRUCT''),
     (''qwen-2.5-72b'', ModelEnum ''QWEN_2_5_72B_INSTRUCT''),
     (''qwen-2-5-72b'', ModelEnum ''QWEN_2_5_72B_INSTRUCT''),
     (''qwen-3-235b'', ModelEnum ''QWEN_3_235B_INSTRUCT''),
     (''qwen-3-coder-480b'', ModelEnum ''QWEN_3_CODER_480B_INSTRUCT''),
     (''grok-2'', ModelEnum ''GROK_2''),
     (''grok-3'', ModelEnum ''GROK_3''),
     (''grok-3-mini'', ModelEnum ''GROK_3_MINI_REASONING''),
     (''grok-code-fast'', ModelEnum ''GROK_CODE_FAST''),
     (''mistral-7b'', ModelEnum ''MISTRAL_7B''),
     (''kimi-k2'', ModelEnum ''KIMI_K2''),
     (''kimi-k2-thinking'', ModelEnum ''KIMI_K2_THINKING''),
     (''glm-4.5'', ModelEnum ''GLM_4_5''),
     (''glm-4-5'', ModelEnum ''GLM_4_5''),
     (''glm-4.6'', ModelEnum ''GLM_4_6''),
     (''glm-4-6'', ModelEnum ''GLM_4_6''),
     (''minimax-m2'', ModelEnum ''MINIMAX_M2''),
     (''swe-1.5'', ModelEnum ''SWE_1_5''),
     (''swe-1-5'', ModelEnum ''SWE_1_5''),
     (''swe-1.5-thinking'', ModelEnum ''SWE_1_5_THINKING''),
     (''swe-1-5-thinking'', ModelEnum ''SWE_1_5_THINKING'')]"

text \<open>\<open>ENUM_TO_MODEL_NAME\<close>, the canonical name of each member.\<close>

definition ENUM_TO_MODEL_NAME :: "(ModelEnumValue \<times> string) list" where
  "ENUM_TO_MODEL_NAME =
    [(ModelEnum ''CLAUDE_3_OPUS_20240229'', ''claude-3-opus''),
     (ModelEnum ''CLAUDE_3_SONNET_20240229'', ''claude-3-sonnet''),
     (ModelEnum ''CLAUDE_3_HAIKU_20240307'', ''claude-3-haiku''),
     (ModelEnum ''CLAUDE_3_5_SONNET_20241022'', ''claude-3.5-sonnet''),
     (ModelEnum ''CLAUDE_3_5_HAIKU_20241022'', ''claude-3.5-haiku''),
     (ModelEnum ''CLAUDE_3_7_SONNET_20250219'', ''claude-3.7-sonnet''),
     (ModelEnum ''CLAUDE_3_7_SONNET_20250219_THINKING'', ''claude-3.7-sonnet-thinking''),
     (ModelEnum ''CLAUDE_4_OPUS'', ''claude-4-opus''),
     (ModelEnum ''CLAUDE_4_OPUS_THINKING'', ''claude-4-opus-thinking''),
     (ModelEnum ''CLAUDE_4_SONNET'', ''claude-4-sonnet''),
     (ModelEnum ''CLAUDE_4_SONNET_THINKING'', ''claude-4-sonnet-thinking''),
     (ModelEnum ''CLAUDE_4_1_OPUS'', ''claude-4.1-opus''),
     (ModelEnum ''CLAUDE_4_1_OPUS_THINKING'', ''claude-4.1-opus-thinking''),
     (ModelEnum ''CLAUDE_4_5_SONNET'', ''claude-4.5-sonnet''),
     (ModelEnum ''CLAUDE_4_5_SONNET_THINKING'', ''claude-4.5-sonnet-thinking''),
     (ModelEnum ''CLAUDE_4_5_SONNET_1M'', ''claude-4.5-sonnet-1m''),
     (ModelEnum ''CLAUDE_4_5_OPUS'', ''claude-4.5-opus''),
     (ModelEnum ''CLAUDE_4_5_OPUS_THINKING'', ''claude-4.5-opus-thinking''),
     (ModelEnum ''CLAUDE_CODE'', ''claude-code''),
     (ModelEnum ''GPT_4'', ''gpt-4''),
     (ModelEnum ''GPT_4_1106_PREVIEW'', ''gpt-4-turbo''),
     (ModelEnum ''GPT_4O_2024_08_06'', ''gpt-4o''),
     (ModelEnum ''GPT_4O_MINI_2024_07_18'', ''gpt-4o-mini''),
     (ModelEnum ''GPT_4_5'', ''gpt-4.5''),
     (ModelEnum ''GPT_4_1_2025_04_14'', ''gpt-4.1''),
     (ModelEnum ''GPT_4_1_MINI_2025_04_14'', ''gpt-4.1-mini''),
     (ModelEnum ''GPT_4_1_NANO_2025_04_14'', ''gpt-4.1-nano''),
     (ModelEnum ''GPT_5'', ''gpt-5''),
     (ModelEnum ''GPT_5_NANO'', ''gpt-5-nano''),
     (ModelEnum ''GPT_5_LOW'', ''gpt-5-low''),
     (ModelEnum ''GPT_5_HIGH'', ''gpt-5-high''),
     (ModelEnum ''GPT_5_CODEX'', ''gpt-5-codex''),
     (ModelEnum ''GPT_5_2_LOW'', ''gpt-5.2-low''),
     (ModelEnum ''GPT_5_2_MEDIUM'', ''gpt-5.2''),
     (ModelEnum ''GPT_5_2_HIGH'', ''gpt-5.2-high''),
     (ModelEnum ''GPT_5_2_XHIGH'', ''gpt-5.2-xhigh''),
     (ModelEnum ''O1'', ''o1''),
     (ModelEnum ''O1_MINI'', ''o1-mini''),
     (ModelEnum ''O1_PREVIEW'', ''o1-preview''),
     (ModelEnum ''O3'', ''o3''),
     (ModelEnum ''O3_MINI'', ''o3-mini''),
     (ModelEnum ''O3_LOW'', ''o3-low''),
     (ModelEnum ''O3_HIGH'', ''o3-high''),
     (ModelEnum ''O3_PRO'', ''o3-pro''),
     (ModelEnum ''O3_PRO_LOW'', ''o3-pro-low''),
     (ModelEnum ''O3_PRO_HIGH'', ''o3-pro-high''),
     (ModelEnum ''O4_MINI'', ''o4-mini''),
     (ModelEnum ''O4_MINI_LOW'', ''o4-mini-low''),
     (ModelEnum ''O4_MINI_HIGH'', ''o4-mini-high''),
     (ModelEnum ''GEMINI_1_0_PRO'', ''gemini-1.0-pro''),
     (ModelEnum ''GEMINI_1_5_PRO'', ''gemini-1.5-pro''),
     (ModelEnum ''GEMINI_2_0_FLASH'', ''gemini-2.0-flash''),
     (ModelEnum ''GEMINI_2_5_PRO'', ''gemini-2.5-pro''),
     (ModelEnum ''GEMINI_2_5_FLASH'', ''gemini-2.5-flash''),
     (ModelEnum ''GEMINI_2_5_FLASH_THINKING'', ''gemini-2.5-flash-thinking''),
     (ModelEnum ''GEMINI_2_5_FLASH_LITE'', ''gemini-2.5-flash-lite''),
     (ModelEnum ''GEMINI_3_0_PRO_LOW'', ''gemini-3.0-pro-low''),
     (ModelEnum ''GEMINI_3_0_PRO_HIGH'', ''gemini-3.0-pro-high''),
     (ModelEnum ''DEEPSEEK_V3'', ''deepseek-v3''),
     (ModelEnum ''DEEPSEEK_V3_2'', ''deepseek-v3-2''),
     (ModelEnum ''DEEPSEEK_R1'', ''deepseek-r1''),
     (ModelEnum ''DEEPSEEK_R1_FAST'', ''deepseek-r1-fast''),
     (ModelEnum ''DEEPSEEK_R1_SLOW'', ''deepseek-r1-slow''),
     (ModelEnum ''LLAMA_3_1_8B_INSTRUCT'', ''llama-3.1-8b''),
     (ModelEnum ''LLAMA_3_1_70B_INSTRUCT'', ''llama-3.1-70b''),
     (ModelEnum ''LLAMA_3_1_405B_INSTRUCT'', ''llama-3.1-405b''),
     (ModelEnum ''LLAMA_3_3_70B_INSTRUCT'', ''llama-3.3-70b''),
     (ModelEnum ''LLAMA_3_3_70B_INSTRUCT_R1'', ''llama-3.3-70b-r1''),
     (ModelEnum ''QWEN_2_5_7B_INSTRUCT'', ''qwen-2.5-7b''),
     (ModelEnum ''QWEN_2_5_32B_INSTRUCT'', ''qwen-2.5-32b''),
     (ModelEnum ''QWEN_2_5_72B_INSTRUCT'', ''qwen-2.5-72b''),
     (ModelEnum ''QWEN_3_235B_INSTRUCT'', ''qwen-3-235b''),
     (ModelEnum ''QWEN_3_CODER_480B_INSTRUCT'', ''qwen-3-coder-480b''),
     (ModelEnum ''GROK_2'', ''grok-2''),
     (ModelEnum ''GROK_3'', ''grok-3''),
     (ModelEnum ''GROK_3_MINI_REASONING'', ''grok-3-mini''),
     (ModelEnum ''GROK_CODE_FAST'', ''grok-code-fast''),
     (ModelEnum ''MISTRAL_7B'', ''mistral-7b''),
     (ModelEnum ''KIMI_K2'', ''kimi-k2''),
     (ModelEnum ''KIMI_K2_THINKING'', ''kimi-k2-thinking''),
     (ModelEnum ''GLM_4_5'', ''glm-4.5''),
     (ModelEnum ''GLM_4_6'', ''glm-4.6''),
     (ModelEnum ''MINIMAX_M2'', ''minimax-m2''),
     (ModelEnum ''SWE_1_5'', ''swe-1.5''),
     (ModelEnum ''SWE_1_5_THINKING'', ''swe-1.5-thinking'')]"

text \<open>
  \<open>String.prototype.toLowerCase\<close>.  It maps \<open>A\<close> to \<open>Z\<close> to \<open>a\<close> to \<open>z\<close>.  Beyond
  ASCII the runtime follows the Unicode case tables.  Two of their entries give an ASCII
  letter and are modelled: U+212A, the Kelvin sign, becomes \<open>k\<close>, and U+0130 becomes \<open>i\<close>
  followed by U+0307.  Every other code unit from 0x80 on is left as it is: what the
  tables make of it has no ASCII character, so the result is a key of the table below, or
  a property name of \<open>Object.prototype\<close>, in the model exactly when it is one in the
  runtime.
\<close>

definition lowerCaseOf :: "jschar \<Rightarrow> jsstring" where
  "lowerCaseOf c =
     (if cu CHR ''A'' \<le> c \<and> c \<le> cu CHR ''Z'' then [c + 0x20]
      else if c = 0x212A then [cu CHR ''k'']
      else if c = 0x0130 then [cu CHR ''i'', 0x0307]
      else [c])"

definition toLowerCase :: "jsstring \<Rightarrow> jsstring" where
  "toLowerCase s = concat (map lowerCaseOf s)"

text \<open>
  \<open>MODEL_NAME_TO_ENUM[normalized]\<close> reads a property of an object literal: an own
  property when \<open>normalized\<close> is a key of the table, otherwise the property of that name of
  \<open>Object.prototype\<close> when there is one, otherwise \<open>undefined\<close>.  The operator \<open>??\<close>
  replaces \<open>undefined\<close> only, so \<open>modelNameToEnum\<close> returns the inherited property for a
  name such as \<open>constructor\<close>; that result is not a member of \<open>ModelEnum\<close>.
\<close>

definition objectPrototypeKeys :: "string list" where
  "objectPrototypeKeys =
    [''constructor'', ''__defineGetter__'', ''__defineSetter__'', ''hasOwnProperty'',
     ''__lookupGetter__'', ''__lookupSetter__'', ''isPrototypeOf'', ''propertyIsEnumerable'',
     ''toString'', ''valueOf'', ''__proto__'', ''toLocaleString'']"

datatype model_lookup = EnumMember ModelEnumValue | InheritedProperty jsstring

definition ownProperty :: "(string \<times> 'a) list \<Rightarrow> jsstring \<Rightarrow> 'a option" where
  "ownProperty table key = map_of (map (\<lambda>(k, v). (str k, v)) table) key"

definition modelNameToEnum :: "jsstring \<Rightarrow> model_lookup" where
  "modelNameToEnum modelName =
     (let normalized = trim (toLowerCase modelName)
      in case ownProperty MODEL_NAME_TO_ENUM normalized of
           Some member \<Rightarrow> EnumMember member
         | None \<Rightarrow>
             if normalized \<in> set (map str objectPrototypeKeys)
             then InheritedProperty normalized
             else EnumMember (ModelEnum ''CLAUDE_3_5_SONNET_20241022''))"

text \<open>\<open>getSupportedModels\<close>: \<open>Object.keys(MODEL_NAME_TO_ENUM)\<close>.\<close>

definition getSupportedModels :: "jsstring list" where
  "getSupportedModels = map (\<lambda>(k, v). str k) MODEL_NAME_TO_ENUM"

text \<open>
  \<open>enumToModelName\<close>: \<open>ENUM_TO_MODEL_NAME[enumValue] ?? 'claude-3.5-sonnet'\<close>.  The
  members that the table names are distinct.
\<close>

definition enumToModelName :: "ModelEnumValue \<Rightarrow> jsstring" where
  "enumToModelName enumValue =
     (case map_of ENUM_TO_MODEL_NAME enumValue of
        Some name \<Rightarrow> str name
      | None \<Rightarrow> str ''claude-3.5-sonnet'')"

text \<open>
  Two names differ only in \<open>.\<close> versus \<open>-\<close>: they have the same length, and wherever
  they differ one has a dot and the other a dash.
\<close>

definition isSeparator :: "jschar \<Rightarrow> bool" where
  "isSeparator c = (c = cu CHR ''.'' \<or> c = cu CHR ''-'')"

definition sameUpToSeparators :: "jsstring \<Rightarrow> jsstring \<Rightarrow> bool" where
  "sameUpToSeparators a b = list_all2 (\<lambda>x y. x = y \<or> (isSeparator x \<and> isSeparator y)) a b"

text \<open>
  To compare spellings: a key of the table with every dot written as a dash.
\<close>

definition dashify :: "string \<Rightarrow> string" where
  "dashify k = map (\<lambda>c. if c = CHR ''.'' then CHR ''-'' else c) k"

section \<open>Streaming (grpc-client.ts)\<close>

text \<open>
  Both streaming functions register handlers and return; the runtime then calls the
  handlers one at a time, each to its end.  A call is modelled by the list of the events
  the runtime delivers, in their order: the events of the HTTP/2 session and of the request
  stream, and \<open>Elapsed120s\<close>, the moment 120000 ms after the call.  A timer registered with
  \<open>setTimeout(f, 120000)\<close> runs \<open>f\<close> at that event; where no timer is registered, nothing
  runs.
\<close>

datatype stream_event =
    ClientError jsstring
  | Connect
  | Data buffer
  | Trailers "jsstring option" "jsstring option"
  | StreamEnd
  | RequestError jsstring
  | Elapsed120s

datatype WindsurfErrorCode = CONNECTION_FAILED | STREAM_ERROR

record WindsurfError =
  message :: jsstring
  errorCode :: WindsurfErrorCode

datatype callback = OnChunk jsstring | OnComplete jsstring | OnError jsstring

text \<open>
  The runtime functions the handlers call: the UTF-8 decoder of \<open>chunk.toString\<close> and
  \<open>decodeURIComponent\<close>, which throws on a malformed escape.
\<close>

record stream_runtime =
  utf8Decode :: "buffer \<Rightarrow> jsstring"
  decodeURIComponent :: "jsstring \<Rightarrow> js_error + jsstring"

text \<open>
  The error of the \<open>trailers\<close> handler:
  \<^verbatim>\<open>`gRPC error ${status}: ${message ? decodeURIComponent(message) : 'Unknown error'}`\<close>.
\<close>

definition grpcError ::
  "stream_runtime \<Rightarrow> jsstring option \<Rightarrow> jsstring option \<Rightarrow> js_error + WindsurfError" where
  "grpcError rt status msg =
     (let statusText = (case status of None \<Rightarrow> str ''undefined'' | Some s \<Rightarrow> s);
          detail = (case msg of
                      None \<Rightarrow> Inr (str ''Unknown error'')
                    | Some m \<Rightarrow> if m = [] then Inr (str ''Unknown error'')
                               else decodeURIComponent rt m)
      in case detail of
           Inl e \<Rightarrow> Inl e
         | Inr d \<Rightarrow> Inr \<lparr>message = str ''gRPC error '' @ statusText @ str '': '' @ d,
                         errorCode = STREAM_ERROR\<rparr>)"

text \<open>
  \<open>streamChat\<close>, from the Promise executor on.  \<open>promise\<close> is the state of the returned
  Promise: \<open>None\<close> while pending, then the first of \<open>resolve\<close> and \<open>reject\<close>; later calls
  of either change nothing.  \<open>requested\<close> says that the \<open>connect\<close> handler has made the
  request and registered its handlers.  An exception that leaves a handler is \<open>uncaught\<close>.
\<close>

record chat_state =
  requested :: bool
  chunks :: "jsstring list"
  promise :: "(WindsurfError + jsstring) option"
  closed :: bool
  calls :: "callback list"
  uncaught :: "js_error option"

definition settle :: "(WindsurfError + jsstring) \<Rightarrow> chat_state \<Rightarrow> chat_state" where
  "settle outcome s = (if promise s = None then s\<lparr>promise := Some outcome\<rparr> else s)"

definition chatStart :: chat_state where
  "chatStart = \<lparr>requested = False, chunks = [], promise = None, closed = False,
                 calls = [], uncaught = None\<rparr>"

fun streamChatHandler :: "stream_runtime \<Rightarrow> chat_state \<Rightarrow> stream_event \<Rightarrow> chat_state" where
  "streamChatHandler rt s (ClientError err) =
     settle (Inl \<lparr>message = str ''Connection failed: '' @ err, errorCode = CONNECTION_FAILED\<rparr>)
       (s\<lparr>calls := calls s @ [OnError err]\<rparr>)"
| "streamChatHandler rt s Connect = s\<lparr>requested := True\<rparr>"
| "streamChatHandler rt s (Data chunk) =
     (if \<not> requested s then s
      else case extractTextFromChunk (utf8Decode rt) chunk of
             Inl e \<Rightarrow> s\<lparr>uncaught := Some e\<rparr>
           | Inr t \<Rightarrow>
               if t \<noteq> [] then s\<lparr>chunks := chunks s @ [t], calls := calls s @ [OnChunk t]\<rparr>
               else s)"
| "streamChatHandler rt s (Trailers status msg) =
     (if \<not> requested s then s
      else if status \<noteq> Some (str ''0'') then
        (case grpcError rt status msg of
           Inl e \<Rightarrow> s\<lparr>uncaught := Some e\<rparr>
         | Inr err \<Rightarrow> settle (Inl err) (s\<lparr>calls := calls s @ [OnError (message err)]\<rparr>))
      else s)"
| "streamChatHandler rt s StreamEnd =
     (if \<not> requested s then s
      else let fullText = concat (chunks s)
           in settle (Inr fullText)
                (s\<lparr>closed := True, calls := calls s @ [OnComplete fullText]\<rparr>))"
| "streamChatHandler rt s (RequestError err) =
     (if \<not> requested s then s
      else settle (Inl \<lparr>message = str ''Request failed: '' @ err, errorCode = STREAM_ERROR\<rparr>)
             (s\<lparr>closed := True, calls := calls s @ [OnError err]\<rparr>))"
| "streamChatHandler rt s Elapsed120s =
     (let fullText = concat (chunks s)
      in settle (Inr fullText)
           (s\<lparr>closed := True, calls := calls s @ [OnComplete fullText]\<rparr>))"

text \<open>An uncaught exception ends the process: no later handler runs.\<close>

definition streamChatStep :: "stream_runtime \<Rightarrow> chat_state \<Rightarrow> stream_event \<Rightarrow> chat_state" where
  "streamChatStep rt s ev = (if uncaught s = None then streamChatHandler rt s ev else s)"

definition streamChat :: "stream_runtime \<Rightarrow> stream_event list \<Rightarrow> chat_state" where
  "streamChat rt events = foldl (streamChatStep rt) chatStart events"

text \<open>
  \<open>streamChatGenerator\<close>.  The request is made and its handlers are registered at once;
  the function calls \<open>setTimeout\<close> nowhere.  No handler looks at \<open>done\<close> or \<open>error\<close>
  before it writes them (the fields \<open>finished\<close> and \<open>failure\<close>), so a later handler
  overwrites what an earlier one has set.

  The body of the generator is the loop
  \<^verbatim>\<open>while (!done || chunkQueue.length > 0) { if (chunkQueue.length > 0) yield chunkQueue.shift();
  else if (!done) await new Promise(...) }\<close> followed by \<^verbatim>\<open>if (error) throw error\<close>.  It
  runs between handlers, not inside one: the runtime may call the handlers of several events
  one after the other before the generator goes on.  A call is therefore modelled by a list
  of lists of events: the handlers of one inner list run without the generator in between,
  and after them the generator runs as far as it can.  With a consumer that asks for every
  next value it yields each queued text in order; then, when \<open>done\<close> is set, it throws
  \<open>error\<close> or returns, and otherwise it is suspended in its \<open>await\<close>.  Once it has
  returned or thrown (the field \<open>ended\<close>), the handlers still run and change nothing that
  the consumer sees.
\<close>

record generator_state =
  chunkQueue :: "jsstring list"
  yielded :: "jsstring list"
  finished :: bool
  failure :: "WindsurfError option"
  clientClosed :: bool
  handlerFault :: "js_error option"
  ended :: "WindsurfError option option"

definition generatorStart :: generator_state where
  "generatorStart = \<lparr>chunkQueue = [], yielded = [], finished = False, failure = None,
                      clientClosed = False, handlerFault = None, ended = None\<rparr>"

fun generatorHandler ::
  "stream_runtime \<Rightarrow> generator_state \<Rightarrow> stream_event \<Rightarrow> generator_state" where
  "generatorHandler rt s (ClientError err) =
     s\<lparr>failure := Some \<lparr>message = str ''Connection failed: '' @ err, errorCode = CONNECTION_FAILED\<rparr>,
       finished := True\<rparr>"
| "generatorHandler rt s Connect = s"
| "generatorHandler rt s (Data chunk) =
     (case extractTextFromChunk (utf8Decode rt) chunk of
        Inl e \<Rightarrow> s\<lparr>handlerFault := Some e\<rparr>
      | Inr t \<Rightarrow> if t \<noteq> [] then s\<lparr>chunkQueue := chunkQueue s @ [t]\<rparr> else s)"
| "generatorHandler rt s (Trailers status msg) =
     (if status \<noteq> Some (str ''0'') then
        (case grpcError rt status msg of
           Inl e \<Rightarrow> s\<lparr>handlerFault := Some e\<rparr>
         | Inr err \<Rightarrow> s\<lparr>failure := Some err\<rparr>)
      else s)"
| "generatorHandler rt s StreamEnd = s\<lparr>finished := True, clientClosed := True\<rparr>"
| "generatorHandler rt s (RequestError err) =
     s\<lparr>failure := Some \<lparr>message = str ''Request failed: '' @ err, errorCode = STREAM_ERROR\<rparr>,
       finished := True, clientClosed := True\<rparr>"
| "generatorHandler rt s Elapsed120s = s"

text \<open>An uncaught exception in a handler ends the process: nothing runs after it.\<close>

definition generatorHandlerStep ::
  "stream_runtime \<Rightarrow> generator_state \<Rightarrow> stream_event \<Rightarrow> generator_state" where
  "generatorHandlerStep rt s ev = (if handlerFault s = None then generatorHandler rt s ev else s)"

definition drainQueue :: "generator_state \<Rightarrow> generator_state" where
  "drainQueue s = s\<lparr>yielded := yielded s @ chunkQueue s, chunkQueue := []\<rparr>"

definition generatorResume :: "generator_state \<Rightarrow> generator_state" where
  "generatorResume s =
     (if handlerFault s \<noteq> None \<or> ended s \<noteq> None then s
      else if finished s then (drainQueue s)\<lparr>ended := Some (failure s)\<rparr>
      else drainQueue s)"

definition generatorStep ::
  "stream_runtime \<Rightarrow> generator_state \<Rightarrow> stream_event list \<Rightarrow> generator_state" where
  "generatorStep rt s events = generatorResume (foldl (generatorHandlerStep rt) s events)"

datatype generator_outcome =
    Suspended "jsstring list"
  | Returned "jsstring list"
  | Threw "jsstring list" WindsurfError

definition generatorOutcome :: "generator_state \<Rightarrow> generator_outcome" where
  "generatorOutcome s =
     (case ended s of
        None \<Rightarrow> Suspended (yielded s)
      | Some None \<Rightarrow> Returned (yielded s)
      | Some (Some e) \<Rightarrow> Threw (yielded s) e)"

definition streamChatGenerator ::
  "stream_runtime \<Rightarrow> stream_event list list \<Rightarrow> generator_outcome" where
  "streamChatGenerator rt batches =
     generatorOutcome (foldl (generatorStep rt) generatorStart batches)"

section \<open>JSON values and \<open>JSON.parse\<close>\<close>

text \<open>
  A value that \<open>JSON.parse\<close> returns.  A number is kept as the text that denotes it; an
  object is the list of its properties, in the order of their first occurrence, with
  distinct keys.  (The runtime lists keys that are array indices first; no statement here
  depends on the order of the keys.)
\<close>

datatype json =
    JNull
  | JBool bool
  | JNumber jsstring
  | JString jsstring
  | JArray "json list"
  | JObject "(jsstring \<times> json) list"

datatype json_token =
    LBrace | RBrace | LBracket | RBracket | Colon | Comma
  | TString jsstring | TNumber jsstring | TTrue | TFalse | TNull

definition isJsonWhite :: "jschar \<Rightarrow> bool" where
  "isJsonWhite c = (c = 0x09 \<or> c = 0x0A \<or> c = 0x0D \<or> c = 0x20)"

definition hexValue :: "jschar \<Rightarrow> nat option" where
  "hexValue c =
     (if cu CHR ''0'' \<le> c \<and> c \<le> cu CHR ''9'' then Some (unat c - 48)
      else if cu CHR ''a'' \<le> c \<and> c \<le> cu CHR ''f'' then Some (unat c - 87)
      else if cu CHR ''A'' \<le> c \<and> c \<le> cu CHR ''F'' then Some (unat c - 55)
      else None)"

definition hex4 :: "jschar \<Rightarrow> jschar \<Rightarrow> jschar \<Rightarrow> jschar \<Rightarrow> jschar option" where
  "hex4 a b c d =
     (case (hexValue a, hexValue b, hexValue c, hexValue d) of
        (Some x, Some y, Some z, Some w) \<Rightarrow> Some (of_nat (4096 * x + 256 * y + 16 * z + w))
      | _ \<Rightarrow> None)"

definition simpleEscape :: "jschar \<Rightarrow> jschar option" where
  "simpleEscape e =
     (if e = cu CHR 0x22 then Some (cu CHR 0x22)
      else if e = cu CHR 0x5C then Some (cu CHR 0x5C)
      else if e = cu CHR ''/'' then Some (cu CHR ''/'')
      else if e = cu CHR ''b'' then Some 0x08
      else if e = cu CHR ''f'' then Some 0x0C
      else if e = cu CHR ''n'' then Some 0x0A
      else if e = cu CHR ''r'' then Some 0x0D
      else if e = cu CHR ''t'' then Some 0x09
      else None)"

text \<open>
  The rest of a string literal after its opening quote: the string it denotes and the
  text after the closing quote.  A code unit below 0x20 may not stand in a string.
\<close>

fun lexString :: "jsstring \<Rightarrow> jsstring \<Rightarrow> (jsstring \<times> jsstring) option" where
  "lexString acc [] = None"
| "lexString acc (c # cs) =
     (if c = cu CHR 0x22 then Some (acc, cs)
      else if c = cu CHR 0x5C then
        (case cs of
           [] \<Rightarrow> None
         | e # rest \<Rightarrow>
             if e = cu CHR ''u'' then
               (case rest of
                  h1 # h2 # h3 # h4 # rest' \<Rightarrow>
                    (case hex4 h1 h2 h3 h4 of
                       Some u \<Rightarrow> lexString (acc @ [u]) rest'
                     | None \<Rightarrow> None)
                | _ \<Rightarrow> None)
             else
               (case simpleEscape e of
                  Some x \<Rightarrow> lexString (acc @ [x]) rest
                | None \<Rightarrow> None))
      else if c < 0x20 then None
      else lexString (acc @ [c]) cs)"

text \<open>
  A number: \<open>-? (0 | [1-9][0-9]*) (. [0-9]+)? ([eE] [+-]? [0-9]+)?\<close>, the longest such
  prefix.
\<close>

definition lexFraction :: "jsstring \<Rightarrow> jsstring \<times> jsstring" where
  "lexFraction s =
     (case s of
        d # e # rest \<Rightarrow>
          if d = cu CHR ''.'' \<and> isDigit e
          then ([d] @ takeWhile isDigit (e # rest), dropWhile isDigit (e # rest))
          else ([], s)
      | _ \<Rightarrow> ([], s))"

definition lexExponent :: "jsstring \<Rightarrow> jsstring \<times> jsstring" where
  "lexExponent s =
     (case s of
        e # rest \<Rightarrow>
          if e = cu CHR ''e'' \<or> e = cu CHR ''E'' then
            (case rest of
               g # ds \<Rightarrow>
                 if (g = cu CHR ''+'' \<or> g = cu CHR ''-'') \<and> ds \<noteq> [] \<and> isDigit (hd ds)
                 then ([e, g] @ takeWhile isDigit ds, dropWhile isDigit ds)
                 else if isDigit g
                 then ([e] @ takeWhile isDigit rest, dropWhile isDigit rest)
                 else ([], s)
             | [] \<Rightarrow> ([], s))
          else ([], s)
      | [] \<Rightarrow> ([], s))"

definition lexInteger :: "jsstring \<Rightarrow> (jsstring \<times> jsstring) option" where
  "lexInteger s =
     (case s of
        [] \<Rightarrow> None
      | d # rest \<Rightarrow>
          if d = cu CHR ''0'' then Some ([d], rest)
          else if isDigit d then Some (takeWhile isDigit s, dropWhile isDigit s)
          else None)"

definition lexNumber :: "jsstring \<Rightarrow> (jsstring \<times> jsstring) option" where
  "lexNumber s =
     (let (sign, s1) = (case s of
                          c # rest \<Rightarrow> if c = cu CHR ''-'' then ([c], rest) else ([], s)
                        | [] \<Rightarrow> ([], s))
      in case lexInteger s1 of
           None \<Rightarrow> None
         | Some (digits, s2) \<Rightarrow>
             (let (fraction, s3) = lexFraction s2;
                  (exponent, s4) = lexExponent s3
              in Some (sign @ digits @ fraction @ exponent, s4)))"

definition startsWith :: "jsstring \<Rightarrow> jsstring \<Rightarrow> bool" where
  "startsWith s p = (take (length p) s = p)"

definition consToken :: "json_token \<Rightarrow> json_token list option \<Rightarrow> json_token list option" where
  "consToken t r = map_option (\<lambda>ts. t # ts) r"

lemma lexString_shorter:
  "lexString acc s = Some (r, rest) \<Longrightarrow> length rest < length s"
proof (induction acc s rule: lexString.induct)
  case (1 acc)
  then show ?case by simp
next
  case (2 acc c cs)
  show ?case
  proof (cases "c = cu CHR 0x22")
    case True
    with "2.prems" show ?thesis by simp
  next
    case quote: False
    show ?thesis
    proof (cases "c = cu CHR 0x5C")
      case False
      with quote "2.prems" have "\<not> c < 0x20" and "lexString (acc @ [c]) cs = Some (r, rest)"
        by (simp_all split: if_splits)
      with "2.IH"(3) [OF quote False] show ?thesis by simp
    next
      case True
      from quote True "2.prems" obtain e tl' where cs: "cs = e # tl'"
        by (cases cs) simp_all
      show ?thesis
      proof (cases "e = cu CHR ''u''")
        case False
        with quote True cs "2.prems" obtain x where
          "simpleEscape e = Some x" and "lexString (acc @ [x]) tl' = Some (r, rest)"
          by (auto split: option.splits)
        with "2.IH"(2) [OF quote True cs False] show ?thesis by (simp add: cs)
      next
        case u: True
        with quote True cs "2.prems" obtain h1 h2 h3 h4 tl'' x where
          "tl' = h1 # h2 # h3 # h4 # tl''" and "hex4 h1 h2 h3 h4 = Some x"
          and "lexString (acc @ [x]) tl'' = Some (r, rest)"
          by (auto split: list.splits option.splits)
        with "2.IH"(1) [OF quote True cs u, of h1 "h2 # h3 # h4 # tl''" h2 "h3 # h4 # tl''" h3
            "h4 # tl''" h4 tl'' x]
        show ?thesis by (simp add: cs)
      qed
    qed
  qed
qed

lemma lexFraction_shorter: "lexFraction s = (f, rest) \<Longrightarrow> length rest \<le> length s"
  by (auto simp: lexFraction_def split: list.splits if_splits
      intro: le_SucI length_dropWhile_le order_trans [OF length_dropWhile_le])

lemma lexExponent_shorter: "lexExponent s = (e, rest) \<Longrightarrow> length rest \<le> length s"
  by (auto simp: lexExponent_def split: list.splits if_splits
      intro: le_SucI length_dropWhile_le order_trans [OF length_dropWhile_le])

lemma lexInteger_shorter: "lexInteger s = Some (d, rest) \<Longrightarrow> length rest < length s"
proof (cases s)
  case Nil
  then show "lexInteger s = Some (d, rest) \<Longrightarrow> length rest < length s"
    by (simp add: lexInteger_def)
next
  case (Cons c cs)
  have "length (dropWhile isDigit cs) \<le> length cs"
    by (rule length_dropWhile_le)
  then show "lexInteger s = Some (d, rest) \<Longrightarrow> length rest < length s"
    by (auto simp: lexInteger_def Cons split: if_splits)
qed

lemma lexNumber_shorter: "lexNumber s = Some (l, rest) \<Longrightarrow> length rest < length s"
proof -
  assume a: "lexNumber s = Some (l, rest)"
  obtain sign s1 where s1: "(case s of c # r \<Rightarrow> if c = cu CHR ''-'' then ([c], r) else ([], s)
                        | [] \<Rightarrow> ([], s)) = (sign, s1)"
    by (cases "(case s of c # r \<Rightarrow> if c = cu CHR ''-'' then ([c], r) else ([], s)
                        | [] \<Rightarrow> ([], s))") auto
  then have l1: "length s1 \<le> length s"
    by (auto split: list.splits if_splits)
  from a s1 obtain digits s2 where i: "lexInteger s1 = Some (digits, s2)"
    by (auto simp: lexNumber_def split: option.splits)
  obtain fr s3 where f: "lexFraction s2 = (fr, s3)" by (cases "lexFraction s2")
  obtain ex s4 where e: "lexExponent s3 = (ex, s4)" by (cases "lexExponent s3")
  from a s1 i f e have "rest = s4"
    by (simp add: lexNumber_def)
  with l1 lexInteger_shorter [OF i] lexFraction_shorter [OF f] lexExponent_shorter [OF e]
  show "length rest < length s" by simp
qed

function jsonTokens :: "jsstring \<Rightarrow> json_token list option" where
  "jsonTokens [] = Some []"
| "jsonTokens (c # cs) =
     (if isJsonWhite c then jsonTokens cs
      else if c = cu CHR ''{'' then consToken LBrace (jsonTokens cs)
      else if c = cu CHR ''}'' then consToken RBrace (jsonTokens cs)
      else if c = cu CHR ''['' then consToken LBracket (jsonTokens cs)
      else if c = cu CHR '']'' then consToken RBracket (jsonTokens cs)
      else if c = cu CHR '':'' then consToken Colon (jsonTokens cs)
      else if c = cu CHR '','' then consToken Comma (jsonTokens cs)
      else if c = cu CHR 0x22 then
        (case lexString [] cs of
           None \<Rightarrow> None
         | Some (s, rest) \<Rightarrow> consToken (TString s) (jsonTokens rest))
      else if c = cu CHR ''-'' \<or> isDigit c then
        (case lexNumber (c # cs) of
           None \<Rightarrow> None
         | Some (l, rest) \<Rightarrow> consToken (TNumber l) (jsonTokens rest))
      else if startsWith (c # cs) (str ''true'') then consToken TTrue (jsonTokens (drop 3 cs))
      else if startsWith (c # cs) (str ''false'') then consToken TFalse (jsonTokens (drop 4 cs))
      else if startsWith (c # cs) (str ''null'') then consToken TNull (jsonTokens (drop 3 cs))
      else None)"
  by pat_completeness auto
termination
proof (relation "measure length", goal_cases)
  case (9 c cs x2 x y)
  then show ?case using lexString_shorter [of "[]" cs x y] by simp
next
  case (10 c cs x2 x y)
  then show ?case using lexNumber_shorter [of "c # cs" x y] by simp
qed auto

declare jsonTokens.simps [simp del]

text \<open>
  The parser reads the tokens one at a time, with the enclosing arrays and objects on a
  stack.  That stack is the parser's own: the depth of a text is taken not to be limited by
  the call stack.  A property that is set twice keeps its place and takes the later value.
\<close>

datatype json_frame = InArray "json list" | InObject "(jsstring \<times> json) list" jsstring

datatype json_state =
    ExpectValue "json_frame list"
  | ArrayStart "json_frame list"
  | ObjectStart "json_frame list"
  | ExpectKey "(jsstring \<times> json) list" "json_frame list"
  | ExpectColon "(jsstring \<times> json) list" jsstring "json_frame list"
  | AfterElement "json list" "json_frame list"
  | AfterMember "(jsstring \<times> json) list" "json_frame list"
  | Finished json

fun objectSet :: "(jsstring \<times> json) list \<Rightarrow> jsstring \<Rightarrow> json \<Rightarrow> (jsstring \<times> json) list" where
  "objectSet [] k v = [(k, v)]"
| "objectSet ((k', v') # members) k v =
     (if k' = k then (k', v) # members else (k', v') # objectSet members k v)"

definition completeValue :: "json \<Rightarrow> json_frame list \<Rightarrow> json_state" where
  "completeValue v stack =
     (case stack of
        [] \<Rightarrow> Finished v
      | InArray xs # st \<Rightarrow> AfterElement (xs @ [v]) st
      | InObject ms k # st \<Rightarrow> AfterMember (objectSet ms k v) st)"

definition startValue :: "json_frame list \<Rightarrow> json_token \<Rightarrow> json_state option" where
  "startValue stack t =
     (case t of
        LBrace \<Rightarrow> Some (ObjectStart stack)
      | LBracket \<Rightarrow> Some (ArrayStart stack)
      | TString s \<Rightarrow> Some (completeValue (JString s) stack)
      | TNumber l \<Rightarrow> Some (completeValue (JNumber l) stack)
      | TTrue \<Rightarrow> Some (completeValue (JBool True) stack)
      | TFalse \<Rightarrow> Some (completeValue (JBool False) stack)
      | TNull \<Rightarrow> Some (completeValue JNull stack)
      | _ \<Rightarrow> None)"

fun jsonStep :: "json_state \<Rightarrow> json_token \<Rightarrow> json_state option" where
  "jsonStep (ExpectValue stack) t = startValue stack t"
| "jsonStep (ArrayStart stack) t =
     (if t = RBracket then Some (completeValue (JArray []) stack)
      else startValue (InArray [] # stack) t)"
| "jsonStep (ObjectStart stack) t =
     (case t of
        RBrace \<Rightarrow> Some (completeValue (JObject []) stack)
      | TString k \<Rightarrow> Some (ExpectColon [] k stack)
      | _ \<Rightarrow> None)"
| "jsonStep (ExpectKey ms stack) t =
     (case t of TString k \<Rightarrow> Some (ExpectColon ms k stack) | _ \<Rightarrow> None)"
| "jsonStep (ExpectColon ms k stack) t =
     (if t = Colon then Some (ExpectValue (InObject ms k # stack)) else None)"
| "jsonStep (AfterElement xs stack) t =
     (if t = Comma then Some (ExpectValue (InArray xs # stack))
      else if t = RBracket then Some (completeValue (JArray xs) stack)
      else None)"
| "jsonStep (AfterMember ms stack) t =
     (if t = Comma then Some (ExpectKey ms stack)
      else if t = RBrace then Some (completeValue (JObject ms) stack)
      else None)"
| "jsonStep (Finished v) t = None"

fun jsonRun :: "json_state \<Rightarrow> json_token list \<Rightarrow> json_state option" where
  "jsonRun s [] = Some s"
| "jsonRun s (t # ts) = (case jsonStep s t of None \<Rightarrow> None | Some s' \<Rightarrow> jsonRun s' ts)"

definition JSON_parse :: "jsstring \<Rightarrow> js_error + json" where
  "JSON_parse t =
     (case jsonTokens t of
        None \<Rightarrow> Inl SyntaxError
      | Some tokens \<Rightarrow>
          (case jsonRun (ExpectValue []) tokens of
             Some (Finished v) \<Rightarrow> Inr v
           | _ \<Rightarrow> Inl SyntaxError))"

section \<open>Tool-call planning (plugin.ts)\<close>

text \<open>
  The call stack.  \<open>normalizeToolArguments\<close> calls itself once for each level of an array
  or an object, and the runtime throws a \<open>RangeError\<close> when the call stack is exhausted.
  \<open>room\<close> is the number of calls of \<open>normalizeToolArguments\<close>, each inside the other,
  that the stack has room for where \<open>parseToolCallPlan\<close> runs; a call for which there is
  no room throws.  The frames of \<open>map\<close> and of the callbacks go with the level they belong
  to; the calls of library functions that do not call back are taken to fit.
\<close>

fun mapResult :: "('a \<Rightarrow> js_error + 'b) \<Rightarrow> 'a list \<Rightarrow> js_error + 'b list" where
  "mapResult f [] = Inr []"
| "mapResult f (x # xs) =
     (case f x of
        Inl e \<Rightarrow> Inl e
      | Inr y \<Rightarrow> (case mapResult f xs of Inl e \<Rightarrow> Inl e | Inr ys \<Rightarrow> Inr (y # ys)))"

definition endsWith :: "jsstring \<Rightarrow> jsstring \<Rightarrow> bool" where
  "endsWith s p = (length p \<le> length s \<and> drop (length s - length p) s = p)"

definition looksJson :: "jsstring \<Rightarrow> bool" where
  "looksJson trimmed =
     ((startsWith trimmed (str ''{'') \<and> endsWith trimmed (str ''}''))
      \<or> (startsWith trimmed (str ''['') \<and> endsWith trimmed (str '']'')))"

text \<open>
  \<open>normalizeToolArguments\<close> on a value that is not \<open>undefined\<close>.  For a text that looks
  like JSON, the \<open>catch\<close> returns the text itself whatever was thrown inside the \<open>try\<close>:
  the error of \<open>JSON.parse\<close> or the \<open>RangeError\<close> of the inner call.  Through \<open>map\<close> and
  through the loop over \<open>Object.entries(raw)\<close> an exception leaves the function.  In that
  loop the assignment \<open>result[key] = ...\<close> with the key \<open>__proto__\<close> calls the setter of
  \<open>Object.prototype\<close> and creates no property: the value of that key is normalized like
  the others and is not in the result.
\<close>

fun normalizeValue :: "nat \<Rightarrow> json \<Rightarrow> js_error + json" where
  "normalizeValue 0 raw = Inl RangeError"
| "normalizeValue (Suc room) JNull = Inr (JObject [])"
| "normalizeValue (Suc room) (JString raw) =
     (if looksJson (trim raw) then
        (case JSON_parse (trim raw) of
           Inr parsed \<Rightarrow>
             (case normalizeValue room parsed of
                Inr result \<Rightarrow> Inr result
              | Inl e \<Rightarrow> Inr (JString raw))
         | Inl e \<Rightarrow> Inr (JString raw))
      else Inr (JString raw))"
| "normalizeValue (Suc room) (JArray xs) =
     (case mapResult (normalizeValue room) xs of
        Inl e \<Rightarrow> Inl e
      | Inr ys \<Rightarrow> Inr (JArray ys))"
| "normalizeValue (Suc room) (JObject ms) =
     (case mapResult (\<lambda>(k, v). case normalizeValue room v of
                                  Inl e \<Rightarrow> Inl e
                                | Inr w \<Rightarrow> Inr (k, w)) ms of
        Inl e \<Rightarrow> Inl e
      | Inr entries \<Rightarrow> Inr (JObject (filter (\<lambda>(k, w). k \<noteq> str ''__proto__'') entries)))"
| "normalizeValue (Suc room) (JNumber l) = Inr (JNumber l)"
| "normalizeValue (Suc room) (JBool b) = Inr (JBool b)"

text \<open>
  \<open>normalizeToolArguments\<close>: the argument is a value of JSON or \<open>undefined\<close> (\<open>None\<close>);
  \<open>raw == null\<close> holds for \<open>null\<close> and for \<open>undefined\<close>.
\<close>

definition normalizeToolArguments :: "nat \<Rightarrow> json option \<Rightarrow> js_error + json" where
  "normalizeToolArguments room raw =
     (case raw of
        None \<Rightarrow> if room = 0 then Inl RangeError else Inr (JObject [])
      | Some v \<Rightarrow> normalizeValue room v)"

text \<open>
  The levels of arrays and objects of a value, counting the value itself: the number of
  nested calls that normalizing it takes.
\<close>

fun nesting :: "json \<Rightarrow> nat" where
  "nesting (JArray xs) = Suc (foldr max (map nesting xs) 0)"
| "nesting (JObject ms) = Suc (foldr max (map (\<lambda>m. nesting (snd m)) ms) 0)"
| "nesting v = Suc 0"

text \<open>
  Truthiness of a value.  A number is falsy when it is zero, which its text shows by
  having no digit but \<open>0\<close> before the exponent; a text whose value is rounded to zero is
  not told apart.  Wherever the source tests a value for truthiness it goes on to read a
  property of it, which a number does not have, so the number case decides nothing.
\<close>

definition isZeroNumber :: "jsstring \<Rightarrow> bool" where
  "isZeroNumber l =
     list_all (\<lambda>c. c = cu CHR ''0'')
       (filter isDigit (takeWhile (\<lambda>c. c \<noteq> cu CHR ''e'' \<and> c \<noteq> cu CHR ''E'') l))"

fun truthy :: "json \<Rightarrow> bool" where
  "truthy JNull = False"
| "truthy (JBool b) = b"
| "truthy (JNumber l) = (\<not> isZeroNumber l)"
| "truthy (JString s) = (s \<noteq> [])"
| "truthy (JArray xs) = True"
| "truthy (JObject ms) = True"

text \<open>
  Reading one of the properties \<open>action\<close>, \<open>content\<close>, \<open>tool_calls\<close>, \<open>name\<close> and
  \<open>arguments\<close>: an object has them when they are among its own properties, and no
  prototype of a value of JSON has a property of these names.  The source reads a property
  of a truthy value only, so never of \<open>null\<close>.
\<close>

fun getProp :: "json \<Rightarrow> jsstring \<Rightarrow> json option" where
  "getProp (JObject ms) k = map_of ms k"
| "getProp v k = None"

fun stringValue :: "json option \<Rightarrow> jsstring option" where
  "stringValue (Some (JString s)) = Some s"
| "stringValue v = None"

fun arrayValue :: "json option \<Rightarrow> json list option" where
  "arrayValue (Some (JArray xs)) = Some xs"
| "arrayValue v = None"

datatype ToolCallPlan =
    FinalPlan jsstring
  | ToolCallsPlan "(jsstring \<times> json) list"

text \<open>
  The statements of the \<open>try\<close> block after \<open>JSON.parse\<close>.  \<open>namedCall\<close> is the test of
  the \<open>filter\<close>, \<open>t && typeof t.name === 'string'\<close>, and \<open>toToolCall\<close> the function of
  the \<open>map\<close>, which is applied to what the filter keeps; there \<open>t.name\<close> is a text.
\<close>

definition namedCall :: "json \<Rightarrow> bool" where
  "namedCall t = (truthy t \<and> stringValue (getProp t (str ''name'')) \<noteq> None)"

definition toToolCall :: "nat \<Rightarrow> json \<Rightarrow> js_error + (jsstring \<times> json)" where
  "toToolCall room t =
     (case normalizeToolArguments room (getProp t (str ''arguments'')) of
        Inl e \<Rightarrow> Inl e
      | Inr args \<Rightarrow>
          Inr (case stringValue (getProp t (str ''name'')) of Some name \<Rightarrow> name | None \<Rightarrow> [],
               args))"

definition planOfParsed :: "nat \<Rightarrow> json \<Rightarrow> js_error + ToolCallPlan option" where
  "planOfParsed room parsed =
     (case (if truthy parsed \<and> getProp parsed (str ''action'') = Some (JString (str ''final''))
            then stringValue (getProp parsed (str ''content'')) else None) of
        Some c \<Rightarrow> Inr (Some (FinalPlan c))
      | None \<Rightarrow>
          (case (if truthy parsed
                    \<and> getProp parsed (str ''action'') = Some (JString (str ''tool_call''))
                 then arrayValue (getProp parsed (str ''tool_calls'')) else None) of
             Some items \<Rightarrow>
               (case mapResult (toToolCall room) (filter namedCall items) of
                  Inl e \<Rightarrow> Inl e
                | Inr tool_calls \<Rightarrow> Inr (Some (ToolCallsPlan tool_calls)))
           | None \<Rightarrow> Inr None))"

text \<open>
  The regular expression of the \<open>catch\<close> block,
  \<^verbatim>\<open>/<tool_call>\s*([\w.-]+)\s*(\{[\s\S]*?\})(?=\s*(?:<tool_call>|$))/g\<close>.
  After the tag, white space, name characters and white space are taken greedily; these
  classes are disjoint and none holds the brace that must follow, so backtracking into them
  finds nothing new.  The lazy body ends at the first closing brace after which only
  white space and then the tag or the end of the text comes.
\<close>

definition isNameChar :: "jschar \<Rightarrow> bool" where
  "isNameChar c =
     ((cu CHR ''a'' \<le> c \<and> c \<le> cu CHR ''z'') \<or> (cu CHR ''A'' \<le> c \<and> c \<le> cu CHR ''Z'')
      \<or> isDigit c \<or> c = cu CHR ''_'' \<or> c = cu CHR ''.'' \<or> c = cu CHR ''-'')"

definition lookaheadHolds :: "jsstring \<Rightarrow> bool" where
  "lookaheadHolds rest =
     (let r = dropWhile isWhiteSpace rest in r = [] \<or> startsWith r (str ''<tool_call>''))"

fun lazyBody :: "jsstring \<Rightarrow> jsstring \<Rightarrow> (jsstring \<times> jsstring) option" where
  "lazyBody acc [] = None"
| "lazyBody acc (c # cs) =
     (if c = cu CHR ''}'' \<and> lookaheadHolds cs then Some (acc @ [c], cs)
      else lazyBody (acc @ [c]) cs)"

definition toolCallMatchAt :: "jsstring \<Rightarrow> (jsstring \<times> jsstring \<times> jsstring) option" where
  "toolCallMatchAt s =
     (if startsWith s (str ''<tool_call>'') then
        (let r1 = dropWhile isWhiteSpace (drop 11 s);
             name = takeWhile isNameChar r1;
             r2 = dropWhile isWhiteSpace (dropWhile isNameChar r1)
         in if name = [] then None
            else (case r2 of
                    [] \<Rightarrow> None
                  | c # bodyText \<Rightarrow>
                      if c = cu CHR ''{'' then
                        (case lazyBody [c] bodyText of
                           Some (rawArgs, rest) \<Rightarrow> Some (name, rawArgs, rest)
                         | None \<Rightarrow> None)
                      else None))
      else None)"

lemma lazyBody_shorter: "lazyBody acc s = Some (r, rest) \<Longrightarrow> length rest < length s"
  by (induction acc s rule: lazyBody.induct) (auto split: if_splits intro: less_SucI)

lemma toolCallMatchAt_shorter:
  assumes "toolCallMatchAt s = Some (name, rawArgs, rest)"
  shows "length rest < length s"
proof -
  let ?r1 = "dropWhile isWhiteSpace (drop 11 s)"
  let ?r2 = "dropWhile isWhiteSpace (dropWhile isNameChar ?r1)"
  from assms obtain c bodyText where r2: "?r2 = c # bodyText"
    and b: "lazyBody [c] bodyText = Some (rawArgs, rest)"
    by (auto simp: toolCallMatchAt_def Let_def split: if_splits list.splits option.splits)
  have "length ?r2 \<le> length (dropWhile isNameChar ?r1)" by (rule length_dropWhile_le)
  also have "\<dots> \<le> length ?r1" by (rule length_dropWhile_le)
  also have "\<dots> \<le> length (drop 11 s)" by (rule length_dropWhile_le)
  also have "\<dots> \<le> length s" by simp
  finally have "length bodyText < length s" by (simp add: r2)
  with lazyBody_shorter [OF b] show ?thesis by simp
qed

text \<open>\<open>output.matchAll(...)\<close>: the matches from left to right, each as name and arguments text.\<close>

function toolCallMatches :: "jsstring \<Rightarrow> (jsstring \<times> jsstring) list" where
  "toolCallMatches [] = []"
| "toolCallMatches (c # cs) =
     (case toolCallMatchAt (c # cs) of
        Some (name, rawArgs, rest) \<Rightarrow> (name, rawArgs) # toolCallMatches rest
      | None \<Rightarrow> toolCallMatches cs)"
  by pat_completeness auto
termination
  by (relation "measure length") (auto dest!: toolCallMatchAt_shorter)

declare toolCallMatches.simps [simp del]

text \<open>
  The function of the \<open>map\<close> in the \<open>catch\<close> block: its own \<open>try\<close> gives \<open>null\<close>
  whatever \<open>JSON.parse\<close> or \<open>normalizeToolArguments\<close> throws, and the \<open>filter\<close> drops
  the \<open>null\<close>s.
\<close>

definition taggedToolCall :: "nat \<Rightarrow> jsstring \<times> jsstring \<Rightarrow> (jsstring \<times> json) option" where
  "taggedToolCall room m =
     (case m of
        (name, rawArgs) \<Rightarrow>
          (case JSON_parse rawArgs of
             Inr args \<Rightarrow>
               (case normalizeToolArguments room (Some args) of
                  Inr normalized \<Rightarrow> Some (name, normalized)
                | Inl e \<Rightarrow> None)
           | Inl e \<Rightarrow> None))"

definition taggedParse :: "nat \<Rightarrow> jsstring \<Rightarrow> ToolCallPlan option" where
  "taggedParse room output =
     (let matches = toolCallMatches output
      in if length matches = 0 then None
         else (let tool_calls = List.map_filter (taggedToolCall room) matches
               in if length tool_calls = 0 then None
                  else Some (ToolCallsPlan tool_calls)))"

text \<open>\<open>indexOf\<close>, \<open>lastIndexOf\<close> (of one character) and \<open>slice\<close>.\<close>

fun indexOf :: "jsstring \<Rightarrow> jschar \<Rightarrow> int" where
  "indexOf [] c = -1"
| "indexOf (x # xs) c =
     (if x = c then 0 else (let i = indexOf xs c in if i = -1 then -1 else i + 1))"

definition lastIndexOf :: "jsstring \<Rightarrow> jschar \<Rightarrow> int" where
  "lastIndexOf s c =
     (let i = indexOf (rev s) c in if i = -1 then -1 else int (length s) - 1 - i)"

definition slice :: "jsstring \<Rightarrow> int \<Rightarrow> int \<Rightarrow> jsstring" where
  "slice s a b =
     (let len = int (length s);
          from = (if a < 0 then max (len + a) 0 else min a len);
          to = (if b < 0 then max (len + b) 0 else min b len)
      in take (nat (to - from)) (drop (nat from) s))"

text \<open>
  \<open>parseToolCallPlan\<close>.  The \<open>try\<close> block is \<open>directParse\<close>: it throws what
  \<open>JSON.parse\<close> throws and what \<open>normalizeToolArguments\<close> throws inside the \<open>map\<close>.  The
  \<open>catch\<close> has no binding and runs \<open>taggedParse\<close> for every exception.
\<close>

definition directParse :: "nat \<Rightarrow> jsstring \<Rightarrow> js_error + ToolCallPlan option" where
  "directParse room jsonText =
     (case JSON_parse jsonText of
        Inl e \<Rightarrow> Inl e
      | Inr parsed \<Rightarrow> planOfParsed room parsed)"

definition parseToolCallPlan :: "nat \<Rightarrow> jsstring \<Rightarrow> js_error + ToolCallPlan option" where
  "parseToolCallPlan room output =
     (let start = indexOf output (cu CHR ''{'');
          end' = lastIndexOf output (cu CHR ''}'')
      in if start = -1 \<or> end' = -1 \<or> end' \<le> start then Inr None
         else (let jsonText = slice output start (end' + 1)
               in case directParse room jsonText of
                    Inr plan \<Rightarrow> Inr plan
                  | Inl e \<Rightarrow> Inr (taggedParse room output)))"

text \<open>
  \<open>handleToolPlanning\<close>, after \<open>planToolCall\<close> has collected the text of the model:
  \<open>collected\<close> is that text, or the error the bridge threw.  \<open>clock n\<close> is the value of
  the \<open>n\<close>-th call of \<open>Date.now()\<close>.  The body of the response is the payload that
  \<open>JSON.stringify\<close> writes; an identifier is kept as the time it is made of (and the index
  of the call).
\<close>

datatype finish_reason = FinishStop | FinishToolCalls

record tool_call_entry =
  callTime :: int
  callIndex :: nat
  functionName :: jsstring
  functionArguments :: json

record completion =
  completionTime :: int
  created :: int
  completionModel :: jsstring
  messageContent :: jsstring
  messageToolCalls :: "tool_call_entry list option"
  finishReason :: finish_reason

record http_response =
  status :: nat
  body :: completion

definition buildToolCallPayload ::
  "(nat \<Rightarrow> int) \<Rightarrow> jsstring \<Rightarrow> (jsstring \<times> json) list \<Rightarrow> completion" where
  "buildToolCallPayload clock model toolCalls =
     (let n = length toolCalls;
          mapped = map (\<lambda>(i, (name, args)).
                     \<lparr>callTime = clock i, callIndex = i, functionName = name,
                      functionArguments = (if args = JNull then JObject [] else args)\<rparr>)
                   (zip [0..<n] toolCalls)
      in \<lparr>completionTime = clock n,
          created = clock (n + 1) div 1000,
          completionModel = model,
          messageContent = [],
          messageToolCalls = Some mapped,
          finishReason = FinishToolCalls\<rparr>)"

definition handleToolPlanning ::
  "(nat \<Rightarrow> int) \<Rightarrow> jsstring \<Rightarrow> nat \<Rightarrow> WindsurfError + jsstring
     \<Rightarrow> (js_error + WindsurfError) + http_response"
  where
  "handleToolPlanning clock model room collected =
     (case collected of
        Inl err \<Rightarrow> Inl (Inr err)
      | Inr text' \<Rightarrow>
          (case parseToolCallPlan room text' of
             Inl e \<Rightarrow> Inl (Inl e)
           | Inr plan \<Rightarrow>
               (case plan of
                  Some (ToolCallsPlan toolCalls) \<Rightarrow>
                    Inr \<lparr>status = 200, body = buildToolCallPayload clock model toolCalls\<rparr>
                | _ \<Rightarrow>
                    (let finalContent =
                           (case plan of Some (FinalPlan c) \<Rightarrow> c | _ \<Rightarrow> text')
                     in Inr \<lparr>status = 200,
                             body = \<lparr>completionTime = clock 0,
                                     created = clock 1 div 1000,
                                     completionModel = model,
                                     messageContent = finalContent,
                                     messageToolCalls = None,
                                     finishReason = FinishStop\<rparr>\<rparr>))))"







definition proseOutput :: jsstring where
  "proseOutput = str ''see {x} here''"

definition sampleClock :: "nat \<Rightarrow> int" where
  "sampleClock n = 1700000000000 + int n"

section \<open>Properties of the encoder\<close>

lemma encodeVarintLoop_acc:
  "encodeVarintLoop bytes v = bytes @ encodeVarintLoop [] v"
proof (induction "nat v" arbitrary: v bytes rule: less_induct)
  case less
  show ?case
  proof (cases "v > 127")
    case True
    let ?b = "(v AND 0x7f) OR 0x80"
    have smaller: "nat (drop_bit 7 v) < nat v"
      using True by (simp add: drop_bit_int_def)
    have "encodeVarintLoop bytes v = encodeVarintLoop (bytes @ [?b]) (drop_bit 7 v)"
      using True by (subst encodeVarintLoop.simps) simp
    also have "\<dots> = (bytes @ [?b]) @ encodeVarintLoop [] (drop_bit 7 v)"
      by (rule less [OF smaller])
    also have "\<dots> = bytes @ ([?b] @ encodeVarintLoop [] (drop_bit 7 v))"
      by simp
    also have "[?b] @ encodeVarintLoop [] (drop_bit 7 v) = encodeVarintLoop ([] @ [?b]) (drop_bit 7 v)"
      using less [OF smaller, of "[?b]"] by simp
    also have "encodeVarintLoop ([] @ [?b]) (drop_bit 7 v) = encodeVarintLoop [] v"
      using True by (subst (2) encodeVarintLoop.simps) simp
    finally show ?thesis .
  next
    case False
    then show ?thesis
      by (subst encodeVarintLoop.simps, subst (2) encodeVarintLoop.simps) simp
  qed
qed

lemma encodeVarint_rec:
  "encodeVarint v =
     (if v > 127 then ((v AND 0x7f) OR 0x80) # encodeVarint (drop_bit 7 v) else [v])"
proof (cases "v > 127")
  case True
  have "encodeVarintLoop [] v = encodeVarintLoop [(v AND 0x7f) OR 0x80] (drop_bit 7 v)"
    using True by (subst encodeVarintLoop.simps) simp
  also have "\<dots> = [(v AND 0x7f) OR 0x80] @ encodeVarintLoop [] (drop_bit 7 v)"
    by (rule encodeVarintLoop_acc)
  finally show ?thesis using True by (simp add: encodeVarint_def)
next
  case False
  then show ?thesis by (simp add: encodeVarint_def encodeVarintLoop.simps [of "[]" v])
qed

lemma and_127_eq_mod: "(v::int) AND 127 = v mod 128"
  using take_bit_eq_mask [of 7 v] by (simp add: take_bit_eq_mod mask_eq_exp_minus_1)

lemma and_128_small: "0 \<le> (x::int) \<Longrightarrow> x < 128 \<Longrightarrow> x AND 128 = 0"
  using and_exp_eq_0_iff_not_bit [of x 7] by (simp add: bit_iff_odd)

lemma or_128_small: "0 \<le> (x::int) \<Longrightarrow> x < 128 \<Longrightarrow> x OR 128 = x + 128"
  using disjunctive_add_eq_or [of x 128] by (simp add: and_128_small)

lemma and_128_continued:
  assumes "0 \<le> (x::int)" and "x < 128"
  shows "(x + 128) AND 128 = 128"
proof -
  have "(x OR 128) AND 128 = (128::int)"
    by (rule bit_eqI) (auto simp: bit_simps)
  with assms show ?thesis by (simp add: or_128_small)
qed

lemma varint_group:
  "(v::int) > 127 \<Longrightarrow> (v AND 0x7f) OR 0x80 = v mod 128 + 128"
  by (simp add: and_127_eq_mod or_128_small)

lemma drop_bit_7_smaller:
  "(v::int) > 127 \<Longrightarrow> nat (drop_bit 7 v) < nat v \<and> 0 \<le> drop_bit 7 v"
  by (auto simp: drop_bit_int_def)

lemma encodeVarint_nonempty: "encodeVarint v \<noteq> []"
  by (subst encodeVarint_rec) simp

lemma decodeVarint_encodeVarint:
  "0 \<le> v \<Longrightarrow> decodeVarint (encodeVarint v @ rest) = Some (v, rest)"
proof (induction "nat v" arbitrary: v rule: less_induct)
  case less
  show ?case
  proof (cases "v > 127")
    case True
    have m: "0 \<le> v mod 128" "v mod 128 < 128" by simp_all
    have "decodeVarint (encodeVarint v @ rest)
        = decodeVarint ((v mod 128 + 128) # (encodeVarint (drop_bit 7 v) @ rest))"
      using True by (subst encodeVarint_rec) (simp add: varint_group)
    also have "\<dots> = Some (v mod 128 + push_bit 7 (drop_bit 7 v), rest)"
      using less.hyps [of "drop_bit 7 v"] drop_bit_7_smaller [OF True] m
      by (simp add: and_128_continued and_127_eq_mod)
    also have "v mod 128 + push_bit 7 (drop_bit 7 v) = v"
      by (simp add: push_bit_eq_mult drop_bit_int_def)
    finally show ?thesis .
  next
    case False
    with less.prems show ?thesis
      by (subst encodeVarint_rec) (simp add: and_128_small)
  qed
qed

lemma varintValue_encodeVarint: "0 \<le> v \<Longrightarrow> varintValue (encodeVarint v) = v"
proof (induction "nat v" arbitrary: v rule: less_induct)
  case less
  show ?case
  proof (cases "v > 127")
    case True
    have "varintValue (encodeVarint v)
        = varintValue ((v mod 128 + 128) # encodeVarint (drop_bit 7 v))"
      using True by (subst encodeVarint_rec) (simp add: varint_group)
    also have "\<dots> = v mod 128 + push_bit 7 (drop_bit 7 v)"
      using less.hyps [of "drop_bit 7 v"] drop_bit_7_smaller [OF True]
      by (simp add: and_127_eq_mod)
    also have "\<dots> = v"
      by (simp add: push_bit_eq_mult drop_bit_int_def)
    finally show ?thesis .
  next
    case False
    with less.prems show ?thesis
      by (subst encodeVarint_rec) (simp add: and_127_eq_mod)
  qed
qed

lemma encodeVarint_continuation:
  "0 \<le> v \<Longrightarrow> b \<in> set (butlast (encodeVarint v)) \<Longrightarrow>
     128 \<le> b \<and> b < 256 \<and> b AND 0x80 = 0x80"
proof (induction "nat v" arbitrary: v rule: less_induct)
  case less
  show ?case
  proof (cases "v > 127")
    case True
    have m: "0 \<le> v mod 128" "v mod 128 < 128" by simp_all
    have "butlast (encodeVarint v) = (v mod 128 + 128) # butlast (encodeVarint (drop_bit 7 v))"
      using True by (subst encodeVarint_rec) (simp add: varint_group encodeVarint_nonempty)
    with less.prems(2)
    consider "b = v mod 128 + 128" | "b \<in> set (butlast (encodeVarint (drop_bit 7 v)))"
      by auto
    then show ?thesis
    proof cases
      case 1
      with m show ?thesis by (simp add: and_128_continued)
    next
      case 2
      with less.hyps [of "drop_bit 7 v"] drop_bit_7_smaller [OF True] show ?thesis by simp
    qed
  next
    case False
    have "butlast (encodeVarint v) = []"
      using False by (subst encodeVarint_rec) simp
    with less.prems(2) show ?thesis by simp
  qed
qed

lemma encodeVarint_last:
  "0 \<le> v \<Longrightarrow> 0 \<le> last (encodeVarint v) \<and> last (encodeVarint v) < 128"
proof (induction "nat v" arbitrary: v rule: less_induct)
  case less
  show ?case
  proof (cases "v > 127")
    case True
    have "last (encodeVarint v) = last (encodeVarint (drop_bit 7 v))"
      using True by (subst encodeVarint_rec) (simp add: encodeVarint_nonempty)
    with less.hyps [of "drop_bit 7 v"] drop_bit_7_smaller [OF True] show ?thesis by simp
  next
    case False
    with less.prems show ?thesis
      by (subst encodeVarint_rec, subst (2) encodeVarint_rec) simp
  qed
qed

section \<open>Claims about the wire encoder\<close>

text \<open>
  C3. Encoding field number 1 with the string "hi" by \<open>encodeString\<close> gives exactly the
  four bytes 0A 02 68 69: the tag of field 1 with wire type 2, the length 2, and the two
  ASCII bytes of "hi".
\<close>

theorem encodeString_field1_hi:
  "encodeString 1 (str ''hi'') = [0x0A, 0x02, 0x68, 0x69]
   \<and> fieldTag 1 2 = 0x0A
   \<and> encodeVarint (int (length (utf8Bytes (str ''hi'')))) = [0x02]
   \<and> utf8Bytes (str ''hi'') = [0x68, 0x69]"
  by (simp add: encodeString_def str_def encodeVarint_rec fieldTag_def utf8CodePoint_def
      isHighSurrogate_def isLowSurrogate_def)

text \<open>
  C10. For every non-negative integer \<open>v\<close>, \<open>encodeVarint v\<close> is a well-formed
  little-endian base-128 varint: it is not empty, every byte but the last is a byte with
  the continuation bit 0x80 set, the last byte is below 0x80, the sum of the 7-bit groups
  \<open>(b\<^sub>i & 0x7F) << 7 i\<close> is \<open>v\<close>, and the standard varint decoder reads \<open>v\<close> back
  from the encoding followed by any other bytes, leaving those bytes unread.
\<close>

theorem encodeVarint_wellformed_roundtrip:
  assumes "0 \<le> v"
  shows "encodeVarint v \<noteq> []
       \<and> (\<forall>b \<in> set (butlast (encodeVarint v)). 128 \<le> b \<and> b < 256 \<and> b AND 0x80 = 0x80)
       \<and> 0 \<le> last (encodeVarint v) \<and> last (encodeVarint v) < 128
       \<and> last (encodeVarint v) AND 0x80 = 0
       \<and> varintValue (encodeVarint v) = v
       \<and> decodeVarint (encodeVarint v @ rest) = Some (v, rest)"
proof -
  have "last (encodeVarint v) AND 0x80 = 0"
    using encodeVarint_last [OF assms] by (simp add: and_128_small)
  then show ?thesis
    using assms encodeVarint_nonempty encodeVarint_continuation encodeVarint_last
      varintValue_encodeVarint decodeVarint_encodeVarint
    by blast
qed

theorem encodeVarint_wellformed_roundtrip_witness:
  "(0::int) \<le> 300
   \<and> encodeVarint 300 = [0xAC, 0x02]
   \<and> varintValue (encodeVarint 300) = 300
   \<and> decodeVarint (encodeVarint 300 @ [0x08, 0x01]) = Some (300, [0x08, 0x01])"
  using encodeVarint_wellformed_roundtrip [of 300 "[0x08, 0x01]"]
  by (simp add: encodeVarint_rec)

lemma unat_byte: "0 \<le> k \<Longrightarrow> unat (word_of_int k :: 8 word) = nat k mod 256"
  by (simp add: unat_eq_nat_uint uint_word_of_int nat_mod_distrib)

lemma base256_digits:
  fixes n :: nat
  assumes "n < 4294967296"
  shows "(n div 16777216) mod 256 * 16777216 + (n div 65536) mod 256 * 65536
       + (n div 256) mod 256 * 256 + n mod 256 = n"
proof -
  have h1: "n = (n div 256) * 256 + n mod 256" by simp
  have "(n div 256) div 256 = n div 65536" by (simp add: div_mult2_eq [symmetric])
  then have h2: "n div 256 = (n div 65536) * 256 + (n div 256) mod 256"
    by (metis div_mult_mod_eq)
  have "(n div 65536) div 256 = n div 16777216" by (simp add: div_mult2_eq [symmetric])
  then have h3: "n div 65536 = (n div 16777216) * 256 + (n div 65536) mod 256"
    by (metis div_mult_mod_eq)
  have h4: "(n div 16777216) mod 256 = n div 16777216"
    using assms by simp
  show ?thesis using h1 h2 h3 h4 by linarith
qed

lemma be32_value:
  assumes "n < 4294967296"
  shows "unat (word_of_int (int n div 16777216) :: 8 word) * 16777216
       + unat (word_of_int (int n div 65536) :: 8 word) * 65536
       + unat (word_of_int (int n div 256) :: 8 word) * 256
       + unat (word_of_int (int n) :: 8 word) = n"
proof -
  have "unat (word_of_int (int n div 16777216) :: 8 word) = (n div 16777216) mod 256"
    using unat_byte [of "int n div 16777216"] by (simp add: nat_div_distrib)
  moreover have "unat (word_of_int (int n div 65536) :: 8 word) = (n div 65536) mod 256"
    using unat_byte [of "int n div 65536"] by (simp add: nat_div_distrib)
  moreover have "unat (word_of_int (int n div 256) :: 8 word) = (n div 256) mod 256"
    using unat_byte [of "int n div 256"] by (simp add: nat_div_distrib)
  moreover have "unat (word_of_int (int n) :: 8 word) = n mod 256"
    using unat_byte [of "int n"] by simp
  ultimately show ?thesis using base256_digits [OF assms] by simp
qed


lemma update4:
  "(a0 # a1 # a2 # a3 # a4 # rest)[1 + 3 := x3, 1 + 2 := x2, 1 + 1 := x1, 1 := x0]
     = a0 # x0 # x1 # x2 # x3 # rest"
proof -
  have n: "(1::nat) + 3 = Suc (Suc (Suc (Suc 0)))" "(1::nat) + 2 = Suc (Suc (Suc 0))"
    "(1::nat) + 1 = Suc (Suc 0)" "(1::nat) = Suc 0"
    by simp_all
  show ?thesis unfolding n by simp
qed

lemma alloc5: "(bufferAlloc (5 + n))[0 := 0] = 0 # 0 # 0 # 0 # 0 # replicate n 0"
proof -
  have "replicate (5 + n) (0::byte) = replicate 5 0 @ replicate n 0"
    by (rule replicate_add)
  moreover have "replicate 5 (0::byte) = [0, 0, 0, 0, 0]"
    by (simp add: numeral_eq_Suc)
  ultimately show ?thesis by (simp add: bufferAlloc_def)
qed

lemma copy5:
  "bufferCopy payload (a0 # a1 # a2 # a3 # a4 # replicate (length payload) z) 5
     = a0 # a1 # a2 # a3 # a4 # payload"
proof -
  have t: "take 5 (a0 # a1 # a2 # a3 # a4 # replicate (length payload) z) = [a0, a1, a2, a3, a4]"
    by (simp add: numeral_eq_Suc)
  have d: "drop (5 + length payload) (a0 # a1 # a2 # a3 # a4 # replicate (length payload) z) = []"
    by simp
  show ?thesis
    unfolding bufferCopy_def Let_def
    by (simp only: t d) simp
qed

lemma frame_shape:
  assumes "length payload < 4294967296"
  shows "(case writeUInt32BE ((bufferAlloc (5 + length payload))[0 := 0]) (int (length payload)) 1 of
            Inl e \<Rightarrow> Inl e | Inr f \<Rightarrow> Inr (bufferCopy payload f 5))
       = Inr (0 # word_of_int (int (length payload) div 16777216)
                # word_of_int (int (length payload) div 65536)
                # word_of_int (int (length payload) div 256)
                # word_of_int (int (length payload)) # payload)"
proof -
  have "writeUInt32BE ((bufferAlloc (5 + length payload))[0 := 0]) (int (length payload)) 1
      = Inr (0 # word_of_int (int (length payload) div 16777216)
                # word_of_int (int (length payload) div 65536)
                # word_of_int (int (length payload) div 256)
                # word_of_int (int (length payload)) # replicate (length payload) 0)"
    using assms unfolding alloc5 writeUInt32BE_def by (simp only: update4) simp
  then show ?thesis by (simp add: copy5)
qed

lemma buildChatRequest_framed:
  assumes "length (chatRequest userSource env apiKey version modelEnum messages) < 4294967296"
  shows "buildChatRequest userSource env apiKey version modelEnum messages
       = Inr (0 # word_of_int (int (length (chatRequest userSource env apiKey version modelEnum messages)) div 16777216)
                # word_of_int (int (length (chatRequest userSource env apiKey version modelEnum messages)) div 65536)
                # word_of_int (int (length (chatRequest userSource env apiKey version modelEnum messages)) div 256)
                # word_of_int (int (length (chatRequest userSource env apiKey version modelEnum messages)))
                # bufferFrom (chatRequest userSource env apiKey version modelEnum messages))"
proof -
  let ?payload = "bufferFrom (chatRequest userSource env apiKey version modelEnum messages)"
  have len: "length ?payload = length (chatRequest userSource env apiKey version modelEnum messages)"
    by (simp add: bufferFrom_def)
  have "length ?payload < 4294967296"
    using assms by (simp only: len)
  from frame_shape [OF this] show ?thesis
    unfolding buildChatRequest_def Let_def by (simp only: len)
qed

lemma readUInt32BE_Cons:
  "readUInt32BE (a0 # a1 # a2 # a3 # a4 # xs) 1
     = unat a1 * 16777216 + unat a2 * 65536 + unat a3 * 256 + unat a4"
  by (simp add: readUInt32BE_def)

lemma drop_5_Cons: "drop 5 (a0 # a1 # a2 # a3 # a4 # xs) = xs"
proof -
  have "(5::nat) = Suc (Suc (Suc (Suc (Suc 0))))" by simp
  then show ?thesis by (simp only: drop_Suc_Cons drop_0)
qed

lemma buildChatRequest_wellformed:
  assumes "length (chatRequest userSource env apiKey version modelEnum messages) < 4294967296"
  shows "\<exists>frame. buildChatRequest userSource env apiKey version modelEnum messages = Inr frame
     \<and> length frame = length (bufferFrom (chatRequest userSource env apiKey version modelEnum messages)) + 5
     \<and> frame ! 0 = 0
     \<and> readUInt32BE frame 1 = length (bufferFrom (chatRequest userSource env apiKey version modelEnum messages))
     \<and> drop 5 frame = bufferFrom (chatRequest userSource env apiKey version modelEnum messages)"
proof -
  let ?n = "length (chatRequest userSource env apiKey version modelEnum messages)"
  let ?payload = "bufferFrom (chatRequest userSource env apiKey version modelEnum messages)"
  let ?frame = "0 # word_of_int (int ?n div 16777216) # word_of_int (int ?n div 65536)
                  # word_of_int (int ?n div 256) # word_of_int (int ?n) # ?payload"
  have len: "length ?payload = ?n"
    by (simp add: bufferFrom_def)
  have built: "buildChatRequest userSource env apiKey version modelEnum messages = Inr ?frame"
    by (rule buildChatRequest_framed [OF assms])
  have size: "length ?frame = length ?payload + 5"
    by simp
  have flag: "?frame ! 0 = 0"
    by simp
  have "readUInt32BE ?frame 1 = ?n"
    unfolding readUInt32BE_Cons by (rule be32_value [OF assms])
  then have prefix: "readUInt32BE ?frame 1 = length ?payload"
    by (simp only: len)
  have rest: "drop 5 ?frame = ?payload"
    by (rule drop_5_Cons)
  from built size flag prefix rest show ?thesis
    by blast
qed

lemma arrayPop_filter_Cons:
  "arrayPop (filter P (m # ms)) =
     (if \<exists>x \<in> set ms. P x then arrayPop (filter P ms)
      else if P m then Some m else None)"
proof (cases "\<exists>x \<in> set ms. P x")
  case True
  then have "filter P ms \<noteq> []"
    by (simp add: filter_empty_conv)
  with True show ?thesis
    by (simp add: arrayPop_def)
next
  case False
  then have "filter P ms = []"
    by (simp add: filter_empty_conv)
  with False show ?thesis
    by (simp add: arrayPop_def)
qed

lemma chatPrompt_lastUserText: "chatPrompt messages = lastUserText messages"
proof (induction messages)
  case Nil
  show ?case by (simp add: chatPrompt_def arrayPop_def)
next
  case (Cons m ms)
  then show ?case
    by (simp add: chatPrompt_def arrayPop_filter_Cons Let_def del: filter.simps)
qed

lemma lastUserText_none:
  "\<forall>x \<in> set messages. role x \<noteq> RoleUser \<Longrightarrow> lastUserText messages = []"
  by (induction messages) simp_all

lemma lastUserText_last:
  "role m = RoleUser \<Longrightarrow> \<forall>x \<in> set post. role x \<noteq> RoleUser \<Longrightarrow>
     lastUserText (pre @ m # post) = content m"
  by (induction pre) auto

section \<open>Claims about the request builder\<close>

text \<open>
  C1. For every credentials (API key and version), model enum and message list, the output
  of \<open>buildChatRequest\<close> is one flag byte equal to 0, then the byte length of the encoded
  payload as a 4-byte big-endian integer, then that payload; its length is the payload's
  length plus 5.  The hypothesis is the range of \<open>writeUInt32BE\<close>; an array of JavaScript
  holds fewer than \<open>2\<^sup>3\<^sup>2\<close> entries, so every request the source builds meets it.
\<close>

theorem buildChatRequest_frame:
  assumes "length (chatRequest userSource env apiKey version modelEnum messages) < 2 ^ 32"
  shows "\<exists>frame. buildChatRequest userSource env apiKey version modelEnum messages = Inr frame
     \<and> length frame = length (bufferFrom (chatRequest userSource env apiKey version modelEnum messages)) + 5
     \<and> frame ! 0 = 0
     \<and> readUInt32BE frame 1 = length (bufferFrom (chatRequest userSource env apiKey version modelEnum messages))
     \<and> drop 5 frame = bufferFrom (chatRequest userSource env apiKey version modelEnum messages)"
  using assms by (intro buildChatRequest_wellformed) simp

definition witness_env :: request_env where
  "witness_env = \<lparr>requestNow = 1700000000000, sessionUUID = str ''s1'',
     messageUUID = str ''m1'', conversationUUID = str ''c1'', timestampNow = 1700000000123\<rparr>"

lemmas request_eval =
  chatRequest_def encodeMetadata_def encodeChatMessage_def encodeChatMessageIntent_def
  encodeIntentGeneric_def encodeTimestamp_def encodeString_def encodeMessage_def
  encodeVarintField_def fieldTag_def str_def utf8CodePoint_def isHighSurrogate_def
  isLowSurrogate_def chatPrompt_def arrayPop_def jsRemainder_def witness_env_def
  encodeVarint_rec bufferFrom_def

theorem buildChatRequest_frame_witness:
  "length (chatRequest 1 witness_env (str ''key'') (str ''1.0'') 166
            [\<lparr>role = RoleUser, content = str ''hi''\<rparr>]) < 2 ^ 32
   \<and> (\<exists>frame. buildChatRequest 1 witness_env (str ''key'') (str ''1.0'') 166
            [\<lparr>role = RoleUser, content = str ''hi''\<rparr>] = Inr frame
        \<and> length frame = 93 + 5
        \<and> frame ! 0 = 0
        \<and> readUInt32BE frame 1 = 93
        \<and> drop 5 frame =
            [10, 55, 10, 13, 119, 105, 110, 100, 115, 117, 114, 102, 45, 110, 101, 120,
             116, 18, 3, 49, 46, 48, 26, 3, 107, 101, 121, 34, 2, 101, 110, 58, 3, 49,
             46, 48, 72, 128, 208, 149, 255, 188, 49, 82, 2, 115, 49, 98, 8, 119, 105,
             110, 100, 115, 117, 114, 102, 18, 31, 10, 2, 109, 49, 16, 1, 26, 11, 8,
             128, 226, 207, 170, 6, 16, 192, 169, 211, 58, 34, 2, 99, 49, 42, 6, 10, 4,
             10, 2, 104, 105, 32, 166, 1])"
proof -
  let ?messages = "[\<lparr>role = RoleUser, content = str ''hi''\<rparr>]"
  let ?bytes = "[10, 55, 10, 13, 119, 105, 110, 100, 115, 117, 114, 102, 45, 110, 101, 120,
             116, 18, 3, 49, 46, 48, 26, 3, 107, 101, 121, 34, 2, 101, 110, 58, 3, 49,
             46, 48, 72, 128, 208, 149, 255, 188, 49, 82, 2, 115, 49, 98, 8, 119, 105,
             110, 100, 115, 117, 114, 102, 18, 31, 10, 2, 109, 49, 16, 1, 26, 11, 8,
             128, 226, 207, 170, 6, 16, 192, 169, 211, 58, 34, 2, 99, 49, 42, 6, 10, 4,
             10, 2, 104, 105, 32, 166, 1] :: int list"
  have request: "chatRequest 1 witness_env (str ''key'') (str ''1.0'') 166 ?messages = ?bytes"
    by (simp add: request_eval)
  have payload: "bufferFrom ?bytes =
            [10, 55, 10, 13, 119, 105, 110, 100, 115, 117, 114, 102, 45, 110, 101, 120,
             116, 18, 3, 49, 46, 48, 26, 3, 107, 101, 121, 34, 2, 101, 110, 58, 3, 49,
             46, 48, 72, 128, 208, 149, 255, 188, 49, 82, 2, 115, 49, 98, 8, 119, 105,
             110, 100, 115, 117, 114, 102, 18, 31, 10, 2, 109, 49, 16, 1, 26, 11, 8,
             128, 226, 207, 170, 6, 16, 192, 169, 211, 58, 34, 2, 99, 49, 42, 6, 10, 4,
             10, 2, 104, 105, 32, 166, 1]"
    by (simp add: bufferFrom_def)
  have small: "length (chatRequest 1 witness_env (str ''key'') (str ''1.0'') 166 ?messages) < 2 ^ 32"
    unfolding request by simp
  from buildChatRequest_frame [OF small] obtain frame where
    "buildChatRequest 1 witness_env (str ''key'') (str ''1.0'') 166 ?messages = Inr frame"
    "length frame = length (bufferFrom ?bytes) + 5"
    "frame ! 0 = 0"
    "readUInt32BE frame 1 = length (bufferFrom ?bytes)"
    "drop 5 frame = bufferFrom ?bytes"
    unfolding request by blast
  then show ?thesis
    using small by (simp add: payload)
qed

text \<open>
  C2. For every message list, the chat-turn text of the wire request is the content of the
  last message whose role is user, and the empty string when no message has that role
  (the empty list included); in that case the request is still built and is a well-formed
  frame.  The messages enter the request through this text alone, in the string field 1 of
  the message field 1 of field 5 of the chat message: earlier turns are not in the prompt.
\<close>

theorem chatRequest_prompt_is_last_user_message:
  "chatRequest userSource env apiKey version modelEnum messages
     = encodeMessage 1 (encodeMetadata env apiKey version)
     @ encodeMessage 2
         (encodeString 1 (messageUUID env)
          @ encodeVarintField 2 userSource
          @ encodeMessage 3 (encodeTimestamp env)
          @ encodeString 4 (conversationUUID env)
          @ encodeMessage 5 (encodeMessage 1 (encodeString 1 (lastUserText messages))))
     @ encodeVarintField 4 modelEnum
   \<and> (role m = RoleUser \<and> (\<forall>x \<in> set post. role x \<noteq> RoleUser)
        \<longrightarrow> lastUserText (pre @ m # post) = content m)
   \<and> ((\<forall>x \<in> set messages. role x \<noteq> RoleUser) \<longrightarrow> lastUserText messages = [])
   \<and> lastUserText [] = []
   \<and> ((\<forall>x \<in> set messages. role x \<noteq> RoleUser)
        \<and> length (chatRequest userSource env apiKey version modelEnum messages) < 2 ^ 32
        \<longrightarrow> (\<exists>frame. buildChatRequest userSource env apiKey version modelEnum messages = Inr frame
              \<and> length frame = length (bufferFrom (chatRequest userSource env apiKey version modelEnum messages)) + 5
              \<and> frame ! 0 = 0
              \<and> readUInt32BE frame 1 = length (bufferFrom (chatRequest userSource env apiKey version modelEnum messages))
              \<and> drop 5 frame = bufferFrom (chatRequest userSource env apiKey version modelEnum messages)))"
proof (intro conjI impI)
  show "chatRequest userSource env apiKey version modelEnum messages
     = encodeMessage 1 (encodeMetadata env apiKey version)
     @ encodeMessage 2
         (encodeString 1 (messageUUID env)
          @ encodeVarintField 2 userSource
          @ encodeMessage 3 (encodeTimestamp env)
          @ encodeString 4 (conversationUUID env)
          @ encodeMessage 5 (encodeMessage 1 (encodeString 1 (lastUserText messages))))
     @ encodeVarintField 4 modelEnum"
    by (simp add: chatRequest_def encodeChatMessage_def encodeChatMessageIntent_def
        encodeIntentGeneric_def chatPrompt_lastUserText)
next
  assume "role m = RoleUser \<and> (\<forall>x \<in> set post. role x \<noteq> RoleUser)"
  then show "lastUserText (pre @ m # post) = content m"
    by (simp add: lastUserText_last)
next
  assume "\<forall>x \<in> set messages. role x \<noteq> RoleUser"
  then show "lastUserText messages = []"
    by (rule lastUserText_none)
next
  show "lastUserText [] = []"
    by simp
next
  assume "(\<forall>x \<in> set messages. role x \<noteq> RoleUser)
        \<and> length (chatRequest userSource env apiKey version modelEnum messages) < 2 ^ 32"
  then have "length (chatRequest userSource env apiKey version modelEnum messages) < 4294967296"
    by simp
  then show "\<exists>frame. buildChatRequest userSource env apiKey version modelEnum messages = Inr frame
              \<and> length frame = length (bufferFrom (chatRequest userSource env apiKey version modelEnum messages)) + 5
              \<and> frame ! 0 = 0
              \<and> readUInt32BE frame 1 = length (bufferFrom (chatRequest userSource env apiKey version modelEnum messages))
              \<and> drop 5 frame = bufferFrom (chatRequest userSource env apiKey version modelEnum messages)"
    by (rule buildChatRequest_wellformed)
qed

theorem chatRequest_prompt_is_last_user_message_witness:
  "role \<lparr>role = RoleUser, content = str ''hi''\<rparr> = RoleUser
   \<and> role \<lparr>role = RoleSystem, content = str ''be brief''\<rparr> \<noteq> RoleUser
   \<and> lastUserText
        ([\<lparr>role = RoleUser, content = str ''first''\<rparr>,
          \<lparr>role = RoleAssistant, content = str ''reply''\<rparr>]
         @ \<lparr>role = RoleUser, content = str ''hi''\<rparr>
         # [\<lparr>role = RoleSystem, content = str ''be brief''\<rparr>]) = str ''hi''
   \<and> chatRequest 1 witness_env (str ''key'') (str ''1.0'') 166
        ([\<lparr>role = RoleUser, content = str ''first''\<rparr>,
          \<lparr>role = RoleAssistant, content = str ''reply''\<rparr>]
         @ \<lparr>role = RoleUser, content = str ''hi''\<rparr>
         # [\<lparr>role = RoleSystem, content = str ''be brief''\<rparr>])
       = [10, 55, 10, 13, 119, 105, 110, 100, 115, 117, 114, 102, 45, 110, 101, 120,
          116, 18, 3, 49, 46, 48, 26, 3, 107, 101, 121, 34, 2, 101, 110, 58, 3, 49,
          46, 48, 72, 128, 208, 149, 255, 188, 49, 82, 2, 115, 49, 98, 8, 119, 105,
          110, 100, 115, 117, 114, 102, 18, 31, 10, 2, 109, 49, 16, 1, 26, 11, 8,
          128, 226, 207, 170, 6, 16, 192, 169, 211, 58, 34, 2, 99, 49, 42, 6, 10, 4,
          10, 2, 104, 105, 32, 166, 1]
   \<and> length (chatRequest 1 witness_env (str ''key'') (str ''1.0'') 166 []) < 2 ^ 32
   \<and> (\<exists>frame. buildChatRequest 1 witness_env (str ''key'') (str ''1.0'') 166 [] = Inr frame
        \<and> length frame = 91 + 5
        \<and> frame ! 0 = 0
        \<and> readUInt32BE frame 1 = 91
        \<and> drop 5 frame =
            [10, 55, 10, 13, 119, 105, 110, 100, 115, 117, 114, 102, 45, 110, 101, 120,
             116, 18, 3, 49, 46, 48, 26, 3, 107, 101, 121, 34, 2, 101, 110, 58, 3, 49,
             46, 48, 72, 128, 208, 149, 255, 188, 49, 82, 2, 115, 49, 98, 8, 119, 105,
             110, 100, 115, 117, 114, 102, 18, 29, 10, 2, 109, 49, 16, 1, 26, 11, 8,
             128, 226, 207, 170, 6, 16, 192, 169, 211, 58, 34, 2, 99, 49, 42, 4, 10, 2,
             10, 0, 32, 166, 1])"
proof -
  let ?pre = "[\<lparr>role = RoleUser, content = str ''first''\<rparr>,
               \<lparr>role = RoleAssistant, content = str ''reply''\<rparr>]"
  let ?m = "\<lparr>role = RoleUser, content = str ''hi''\<rparr>"
  let ?post = "[\<lparr>role = RoleSystem, content = str ''be brief''\<rparr>]"
  let ?empty = "[] :: int list"
  let ?bytes = "[10, 55, 10, 13, 119, 105, 110, 100, 115, 117, 114, 102, 45, 110, 101, 120,
             116, 18, 3, 49, 46, 48, 26, 3, 107, 101, 121, 34, 2, 101, 110, 58, 3, 49,
             46, 48, 72, 128, 208, 149, 255, 188, 49, 82, 2, 115, 49, 98, 8, 119, 105,
             110, 100, 115, 117, 114, 102, 18, 29, 10, 2, 109, 49, 16, 1, 26, 11, 8,
             128, 226, 207, 170, 6, 16, 192, 169, 211, 58, 34, 2, 99, 49, 42, 4, 10, 2,
             10, 0, 32, 166, 1] :: int list"
  note general = chatRequest_prompt_is_last_user_message
    [of 1 witness_env "str ''key''" "str ''1.0''" 166 "?pre @ ?m # ?post" ?m ?post ?pre]
  note boundary = chatRequest_prompt_is_last_user_message
    [of 1 witness_env "str ''key''" "str ''1.0''" 166 "[]" ?m ?post ?pre]
  have last_user: "lastUserText (?pre @ ?m # ?post) = str ''hi''"
    using general by simp
  have request: "chatRequest 1 witness_env (str ''key'') (str ''1.0'') 166 (?pre @ ?m # ?post) =
       [10, 55, 10, 13, 119, 105, 110, 100, 115, 117, 114, 102, 45, 110, 101, 120,
          116, 18, 3, 49, 46, 48, 26, 3, 107, 101, 121, 34, 2, 101, 110, 58, 3, 49,
          46, 48, 72, 128, 208, 149, 255, 188, 49, 82, 2, 115, 49, 98, 8, 119, 105,
          110, 100, 115, 117, 114, 102, 18, 31, 10, 2, 109, 49, 16, 1, 26, 11, 8,
          128, 226, 207, 170, 6, 16, 192, 169, 211, 58, 34, 2, 99, 49, 42, 6, 10, 4,
          10, 2, 104, 105, 32, 166, 1]"
    by (subst general [THEN conjunct1], subst last_user) (simp add: request_eval)
  have empty_request:
    "chatRequest 1 witness_env (str ''key'') (str ''1.0'') 166 [] = ?bytes"
    by (simp add: request_eval)
  have payload: "bufferFrom ?bytes =
            [10, 55, 10, 13, 119, 105, 110, 100, 115, 117, 114, 102, 45, 110, 101, 120,
             116, 18, 3, 49, 46, 48, 26, 3, 107, 101, 121, 34, 2, 101, 110, 58, 3, 49,
             46, 48, 72, 128, 208, 149, 255, 188, 49, 82, 2, 115, 49, 98, 8, 119, 105,
             110, 100, 115, 117, 114, 102, 18, 29, 10, 2, 109, 49, 16, 1, 26, 11, 8,
             128, 226, 207, 170, 6, 16, 192, 169, 211, 58, 34, 2, 99, 49, 42, 4, 10, 2,
             10, 0, 32, 166, 1]"
    by (simp add: bufferFrom_def)
  have small: "length (chatRequest 1 witness_env (str ''key'') (str ''1.0'') 166 []) < 2 ^ 32"
    unfolding empty_request by simp
  with boundary obtain frame where
    "buildChatRequest 1 witness_env (str ''key'') (str ''1.0'') 166 [] = Inr frame"
    "length frame = length (bufferFrom ?bytes) + 5"
    "frame ! 0 = 0"
    "readUInt32BE frame 1 = length (bufferFrom ?bytes)"
    "drop 5 frame = bufferFrom ?bytes"
    unfolding empty_request by auto
  then have framed:
    "\<exists>frame. buildChatRequest 1 witness_env (str ''key'') (str ''1.0'') 166 [] = Inr frame
        \<and> length frame = 91 + 5
        \<and> frame ! 0 = 0
        \<and> readUInt32BE frame 1 = 91
        \<and> drop 5 frame = bufferFrom ?bytes"
    by (simp add: bufferFrom_def)
  show ?thesis
    using last_user request small framed unfolding payload by simp
qed

section \<open>Claims about the response extractor\<close>

lemma markerMatchAt_two_entries:
  "markerMatchAt s = Some groups \<Longrightarrow> length groups = 2"
  by (auto simp: markerMatchAt_def Let_def split: list.splits if_splits)

lemma markerMatch_two_entries:
  "markerMatch s = Some groups \<Longrightarrow> length groups = 2"
proof (induction s)
  case Nil
  then show ?case by simp
next
  case (Cons c cs)
  show ?case
  proof (cases "markerMatchAt (c # cs)")
    case None
    with Cons show ?thesis by simp
  next
    case (Some found)
    with Cons.prems have "groups = found" by simp
    with Some show ?thesis by (simp add: markerMatchAt_two_entries)
  qed
qed

lemma firstMeaningful_none:
  "\<forall>part \<in> set parts. \<not> meaningfulPart part \<or> cleanPart part = [] \<Longrightarrow>
     firstMeaningful parts = []"
  by (induction parts) (auto simp: Let_def)

lemma extractTextFromChunk_returns:
  "\<exists>t. extractTextFromChunk decode chunk = Inr t"
proof (cases "markerMatch (readableText decode chunk)")
  case None
  then show ?thesis by (simp add: extractTextFromChunk_def Let_def)
next
  case (Some groups)
  then have "length groups = 2" by (rule markerMatch_two_entries)
  with Some show ?thesis
    by (simp add: extractTextFromChunk_def Let_def arrayAt_def)
qed

text \<open>
  C9. The response extractor is total: for every chunk (and whatever the decoder returns
  for it) it returns a string and does not throw.  When the marker pattern does not match
  and no part of the split passes the test with a non-empty rest, the result is the empty
  string; so it is when the marker matches and its group is white space only.
\<close>

theorem extractTextFromChunk_total:
  "(\<exists>t. extractTextFromChunk decode chunk = Inr t)
   \<and> (markerMatch (readableText decode chunk) = None
        \<and> (\<forall>part \<in> set (splitOnSpaces (readableText decode chunk)).
              \<not> meaningfulPart part \<or> cleanPart part = [])
       \<longrightarrow> extractTextFromChunk decode chunk = Inr [])
   \<and> (markerMatch (readableText decode chunk) = Some [m, g] \<and> trim g = []
       \<longrightarrow> extractTextFromChunk decode chunk = Inr [])"
proof (intro conjI impI)
  show "\<exists>t. extractTextFromChunk decode chunk = Inr t"
    by (rule extractTextFromChunk_returns)
next
  assume "markerMatch (readableText decode chunk) = None
        \<and> (\<forall>part \<in> set (splitOnSpaces (readableText decode chunk)).
              \<not> meaningfulPart part \<or> cleanPart part = [])"
  then show "extractTextFromChunk decode chunk = Inr []"
    by (simp add: extractTextFromChunk_def Let_def firstMeaningful_none)
next
  assume "markerMatch (readableText decode chunk) = Some [m, g] \<and> trim g = []"
  then show "extractTextFromChunk decode chunk = Inr []"
    by (simp add: extractTextFromChunk_def Let_def arrayAt_def)
qed

lemmas extract_eval =
  readableText_def decodeAscii_def trim_def replaceNonPrintable_def markerMatchAt_def
  splitOnSpaces_def meaningfulPart_def matchesHexDash_def isHexOrDash_def cleanPart_def
  isWhiteSpace_def isDigit_def cu_def str_def Let_def

theorem extractTextFromChunk_total_witness:
  "markerMatch (readableText decodeAscii (map of_char '' deadbeef   *0'')) = None
   \<and> splitOnSpaces (readableText decodeAscii (map of_char '' deadbeef   *0''))
       = [str ''deadbeef'', str ''*0'']
   \<and> \<not> meaningfulPart (str ''deadbeef'')
   \<and> cleanPart (str ''*0'') = []
   \<and> extractTextFromChunk decodeAscii (map of_char '' deadbeef   *0'') = Inr []
   \<and> markerMatch (readableText decodeAscii (map of_char ''x * 0'')) = Some [str ''* '', str '' '']
   \<and> trim (str '' '') = []
   \<and> extractTextFromChunk decodeAscii (map of_char ''x * 0'') = Inr []"
proof -
  let ?chunk = "map of_char '' deadbeef   *0'' :: buffer"
  let ?starred = "map of_char ''x * 0'' :: buffer"
  have unmatched: "markerMatch (readableText decodeAscii ?chunk) = None"
    by (simp add: extract_eval)
  have parts: "splitOnSpaces (readableText decodeAscii ?chunk) = [str ''deadbeef'', str ''*0'']"
    by (simp add: extract_eval)
  have hex: "\<not> meaningfulPart (str ''deadbeef'')"
    by (simp add: extract_eval)
  have star: "cleanPart (str ''*0'') = []"
    by (simp add: extract_eval)
  have matched: "markerMatch (readableText decodeAscii ?starred) = Some [str ''* '', str '' '']"
    by (simp add: extract_eval)
  have blank: "trim (str '' '') = []"
    by (simp add: extract_eval)
  have no_part: "\<forall>part \<in> set (splitOnSpaces (readableText decodeAscii ?chunk)).
      \<not> meaningfulPart part \<or> cleanPart part = []"
    unfolding parts using hex star by simp
  have first: "extractTextFromChunk decodeAscii ?chunk = Inr []"
    using extractTextFromChunk_total [of decodeAscii ?chunk "[]" "[]"] unmatched no_part
    by blast
  have second: "extractTextFromChunk decodeAscii ?starred = Inr []"
    using extractTextFromChunk_total [of decodeAscii ?starred "str ''* ''" "str '' ''"]
      matched blank
    by blast
  from unmatched parts hex star first matched blank second show ?thesis
    by blast
qed

section \<open>Claims about the model registry\<close>

lemma table_closed:
  "list_all (\<lambda>(k, v). CHR ''.'' \<notin> set k \<or> map_of MODEL_NAME_TO_ENUM (dashify k) = Some v)
     MODEL_NAME_TO_ENUM"
  by code_simp

lemma dashify_without_dot: "CHR ''.'' \<notin> set k \<Longrightarrow> dashify k = k"
  by (induction k) (auto simp: dashify_def)

lemma lookup_dashify:
  assumes "map_of MODEL_NAME_TO_ENUM k = Some v"
  shows "map_of MODEL_NAME_TO_ENUM (dashify k) = Some v"
proof (cases "CHR ''.'' \<in> set k")
  case True
  from assms have "(k, v) \<in> set MODEL_NAME_TO_ENUM" by (rule map_of_SomeD)
  with table_closed True show ?thesis
    by (auto simp: list_all_iff)
next
  case False
  with assms show ?thesis by (simp add: dashify_without_dot)
qed

lemma ownProperty_str: "ownProperty table (str k) = map_of table k"
  unfolding ownProperty_def
  by (induction table) (auto simp: str_eq_iff)

lemma ownProperty_None:
  "ownProperty MODEL_NAME_TO_ENUM n = None \<longleftrightarrow> n \<notin> set getSupportedModels"
proof -
  have "fst ` set (map (\<lambda>(k, v). (str k, v)) MODEL_NAME_TO_ENUM) = set getSupportedModels"
    by (force simp: getSupportedModels_def)
  then show ?thesis
    by (simp add: ownProperty_def map_of_eq_None_iff)
qed

lemma isSeparator_cu: "isSeparator (cu c) \<longleftrightarrow> c = CHR ''.'' \<or> c = CHR ''-''"
  by (simp add: isSeparator_def cu_eq_iff)

lemma sameUpToSeparators_dashify:
  "sameUpToSeparators (str x) (str y) \<Longrightarrow> dashify x = dashify y"
proof (induction x arbitrary: y)
  case Nil
  then show ?case by (simp add: sameUpToSeparators_def str_def)
next
  case (Cons c x)
  from Cons.prems obtain d y' where y: "y = d # y'"
    by (cases y) (auto simp: sameUpToSeparators_def str_def)
  from Cons.prems have head: "cu c = cu d \<or> (isSeparator (cu c) \<and> isSeparator (cu d))"
    and tail: "sameUpToSeparators (str x) (str y')"
    by (simp_all add: y sameUpToSeparators_def str_def cu_def)
  from head have "(if c = CHR ''.'' then CHR ''-'' else c) = (if d = CHR ''.'' then CHR ''-'' else d)"
    by (auto simp: cu_eq_iff isSeparator_cu)
  with Cons.IH [OF tail] show ?case
    by (simp add: y dashify_def)
qed

text \<open>
  Lower-casing and trimming keep two names the same up to their separators: a separator
  is neither a capital letter nor white space.
\<close>

lemma separator_plain:
  assumes "isSeparator x"
  shows "lowerCaseOf x = [x]" and "\<not> isWhiteSpace x"
  using assms
  by (auto simp: isSeparator_def lowerCaseOf_def isWhiteSpace_def cu_def)

lemma sameUpToSeparators_toLowerCase:
  "sameUpToSeparators a b \<Longrightarrow> sameUpToSeparators (toLowerCase a) (toLowerCase b)"
  unfolding sameUpToSeparators_def toLowerCase_def
proof (induction a b rule: list_all2_induct)
  case Nil
  show ?case by simp
next
  case (Cons x xs y ys)
  have "list_all2 (\<lambda>x y. x = y \<or> (isSeparator x \<and> isSeparator y)) (lowerCaseOf x) (lowerCaseOf y)"
  proof (cases "x = y")
    case True
    then show ?thesis by (simp add: list_all2_same)
  next
    case False
    with Cons.hyps have "isSeparator x" "isSeparator y" by simp_all
    then show ?thesis by (simp add: separator_plain)
  qed
  with Cons.IH show ?case by (simp add: list_all2_appendI)
qed

lemma sameUpToSeparators_dropWhile:
  "sameUpToSeparators a b
   \<Longrightarrow> sameUpToSeparators (dropWhile isWhiteSpace a) (dropWhile isWhiteSpace b)"
  unfolding sameUpToSeparators_def
proof (induction a b rule: list_all2_induct)
  case Nil
  show ?case by simp
next
  case (Cons x xs y ys)
  from Cons.hyps have "isWhiteSpace x \<longleftrightarrow> isWhiteSpace y"
    by (auto simp: separator_plain)
  with Cons show ?case by simp
qed

lemma sameUpToSeparators_rev:
  "sameUpToSeparators a b \<Longrightarrow> sameUpToSeparators (rev a) (rev b)"
  by (simp add: sameUpToSeparators_def)

lemma sameUpToSeparators_normalized:
  assumes "sameUpToSeparators a b"
  shows "sameUpToSeparators (trim (toLowerCase a)) (trim (toLowerCase b))"
  unfolding trim_def
  by (intro sameUpToSeparators_rev sameUpToSeparators_dropWhile sameUpToSeparators_toLowerCase
        assms)

lemma registry_key:
  assumes "trim (toLowerCase a) \<in> set getSupportedModels"
  obtains k v where "trim (toLowerCase a) = str k" and "map_of MODEL_NAME_TO_ENUM k = Some v"
    and "modelNameToEnum a = EnumMember v"
proof -
  from assms obtain k v0 where a: "trim (toLowerCase a) = str k"
    and "(k, v0) \<in> set MODEL_NAME_TO_ENUM"
    by (auto simp: getSupportedModels_def)
  then obtain v where v: "map_of MODEL_NAME_TO_ENUM k = Some v"
    by (meson weak_map_of_SomeI)
  then have "modelNameToEnum a = EnumMember v"
    by (simp add: modelNameToEnum_def a ownProperty_str)
  with a v show ?thesis by (rule that)
qed

text \<open>
  C4, as the code has it.  \<open>modelNameToEnum\<close> lower-cases and trims a name and looks it
  up in \<open>MODEL_NAME_TO_ENUM\<close>.  For every pair of names that differ only in \<open>.\<close> versus
  \<open>-\<close>, themselves or once lower-cased and trimmed, and whose lower-cased, trimmed forms
  are both keys of the table, it returns the same member of \<open>ModelEnum\<close>.  For a name
  whose lower-cased, trimmed form is not a key of the table, and not the name of a property
  of \<open>Object.prototype\<close> either, it returns the default member, whatever another spelling
  of the name resolves to.
\<close>

theorem modelNameToEnum_registry_separators:
  "(trim (toLowerCase a) \<in> set getSupportedModels
      \<and> trim (toLowerCase b) \<in> set getSupportedModels
      \<and> (sameUpToSeparators a b
          \<or> sameUpToSeparators (trim (toLowerCase a)) (trim (toLowerCase b)))
    \<longrightarrow> modelNameToEnum a = modelNameToEnum b)
   \<and> (trim (toLowerCase c) \<notin> set getSupportedModels
      \<and> trim (toLowerCase c) \<notin> set (map str objectPrototypeKeys)
    \<longrightarrow> modelNameToEnum c = EnumMember (ModelEnum ''CLAUDE_3_5_SONNET_20241022''))"
proof (intro conjI impI)
  assume hyp: "trim (toLowerCase a) \<in> set getSupportedModels
      \<and> trim (toLowerCase b) \<in> set getSupportedModels
      \<and> (sameUpToSeparators a b
          \<or> sameUpToSeparators (trim (toLowerCase a)) (trim (toLowerCase b)))"
  then have same: "sameUpToSeparators (trim (toLowerCase a)) (trim (toLowerCase b))"
    using sameUpToSeparators_normalized by blast
  from hyp obtain ka va where a: "trim (toLowerCase a) = str ka"
    and va: "map_of MODEL_NAME_TO_ENUM ka = Some va" and ra: "modelNameToEnum a = EnumMember va"
    by (blast elim: registry_key)
  from hyp obtain kb vb where b: "trim (toLowerCase b) = str kb"
    and vb: "map_of MODEL_NAME_TO_ENUM kb = Some vb" and rb: "modelNameToEnum b = EnumMember vb"
    by (blast elim: registry_key)
  from same have dashes: "dashify ka = dashify kb"
    unfolding a b by (rule sameUpToSeparators_dashify)
  have "map_of MODEL_NAME_TO_ENUM (dashify ka) = Some va"
    using va by (rule lookup_dashify)
  moreover have "map_of MODEL_NAME_TO_ENUM (dashify kb) = Some vb"
    using vb by (rule lookup_dashify)
  ultimately have "va = vb" using dashes by simp
  with ra rb show "modelNameToEnum a = modelNameToEnum b" by simp
next
  assume "trim (toLowerCase c) \<notin> set getSupportedModels
      \<and> trim (toLowerCase c) \<notin> set (map str objectPrototypeKeys)"
  then show "modelNameToEnum c = EnumMember (ModelEnum ''CLAUDE_3_5_SONNET_20241022'')"
    using ownProperty_None [of "trim (toLowerCase c)"]
    by (simp add: modelNameToEnum_def Let_def)
qed

lemma supported_by_lookup:
  "map_of MODEL_NAME_TO_ENUM k = Some v \<Longrightarrow> str k \<in> set getSupportedModels"
  by (force simp: getSupportedModels_def dest: map_of_SomeD)

lemma unsupported_by_lookup:
  "map_of MODEL_NAME_TO_ENUM k = None \<Longrightarrow> str k \<notin> set getSupportedModels"
  using ownProperty_None [of "str k"] by (simp add: ownProperty_str)

lemmas name_eval = trim_def toLowerCase_def lowerCaseOf_def str_def cu_def isWhiteSpace_def

lemma lookup_gpt_dot: "map_of MODEL_NAME_TO_ENUM ''gpt-4.1'' = Some (ModelEnum ''GPT_4_1_2025_04_14'')"
  by code_simp

lemma lookup_gpt_dash: "map_of MODEL_NAME_TO_ENUM ''gpt-4-1'' = Some (ModelEnum ''GPT_4_1_2025_04_14'')"
  by code_simp

lemma lookup_haiku_dated: "map_of MODEL_NAME_TO_ENUM ''claude-3.5-haiku-20241022'' = None"
  by code_simp

lemma normal_names:
  "trim (toLowerCase (str ''deepseek-v3.2'')) = str ''deepseek-v3.2''"
  "trim (toLowerCase (str ''deepseek-v3-2'')) = str ''deepseek-v3-2''"
  by (simp_all add: name_eval)

lemma lookup_deepseek_dot: "map_of MODEL_NAME_TO_ENUM ''deepseek-v3.2'' = None"
  by code_simp

lemma lookup_deepseek_dash: "map_of MODEL_NAME_TO_ENUM ''deepseek-v3-2'' = Some (ModelEnum ''DEEPSEEK_V3_2'')"
  by code_simp

lemma not_inherited: "str ''deepseek-v3.2'' \<notin> set (map str objectPrototypeKeys)"
  by (simp add: objectPrototypeKeys_def str_eq_iff)

text \<open>
  C4, as the claim states it, fails: \<open>deepseek-v3.2\<close> and \<open>deepseek-v3-2\<close> differ only in
  the separator of the version number; the second is a key of the table, the first is not
  and resolves to the default member.
\<close>

theorem modelNameToEnum_separators_counterexample:
  "sameUpToSeparators (str ''deepseek-v3.2'') (str ''deepseek-v3-2'')
   \<and> modelNameToEnum (str ''deepseek-v3.2'') = EnumMember (ModelEnum ''CLAUDE_3_5_SONNET_20241022'')
   \<and> modelNameToEnum (str ''deepseek-v3-2'') = EnumMember (ModelEnum ''DEEPSEEK_V3_2'')
   \<and> modelNameToEnum (str ''deepseek-v3.2'') \<noteq> modelNameToEnum (str ''deepseek-v3-2'')"
proof -
  have same: "sameUpToSeparators (str ''deepseek-v3.2'') (str ''deepseek-v3-2'')"
    by (simp add: sameUpToSeparators_def str_def isSeparator_def cu_def)
  have dot: "modelNameToEnum (str ''deepseek-v3.2'') = EnumMember (ModelEnum ''CLAUDE_3_5_SONNET_20241022'')"
    using not_inherited
    by (simp add: modelNameToEnum_def normal_names ownProperty_str lookup_deepseek_dot)
  have dash: "modelNameToEnum (str ''deepseek-v3-2'') = EnumMember (ModelEnum ''DEEPSEEK_V3_2'')"
    by (simp add: modelNameToEnum_def normal_names ownProperty_str lookup_deepseek_dash)
  from same dot dash show ?thesis by simp
qed

theorem modelNameToEnum_registry_separators_witness:
  "modelNameToEnum (str '' GPT-4.1 '') = modelNameToEnum (str ''gpt-4-1'')
   \<and> modelNameToEnum (str ''gpt-4.1'') = modelNameToEnum (str ''gpt-4-1'')
   \<and> modelNameToEnum (str ''Claude-3.5-Haiku-20241022'')
       = EnumMember (ModelEnum ''CLAUDE_3_5_SONNET_20241022'')"
proof -
  have upper: "trim (toLowerCase (str '' GPT-4.1 '')) = str ''gpt-4.1''"
    and dot: "trim (toLowerCase (str ''gpt-4.1'')) = str ''gpt-4.1''"
    and dash: "trim (toLowerCase (str ''gpt-4-1'')) = str ''gpt-4-1''"
    and haiku: "trim (toLowerCase (str ''Claude-3.5-Haiku-20241022'')) = str ''claude-3.5-haiku-20241022''"
    by (simp_all add: name_eval)
  have keys: "str ''gpt-4.1'' \<in> set getSupportedModels" "str ''gpt-4-1'' \<in> set getSupportedModels"
    using lookup_gpt_dot lookup_gpt_dash by (blast intro: supported_by_lookup)+
  have same: "sameUpToSeparators (str ''gpt-4.1'') (str ''gpt-4-1'')"
    by (simp add: sameUpToSeparators_def str_def isSeparator_def cu_def)
  have no_key: "str ''claude-3.5-haiku-20241022'' \<notin> set getSupportedModels"
    using lookup_haiku_dated by (rule unsupported_by_lookup)
  have no_property: "str ''claude-3.5-haiku-20241022'' \<notin> set (map str objectPrototypeKeys)"
    by (simp add: objectPrototypeKeys_def str_eq_iff)
  from modelNameToEnum_registry_separators [of "str '' GPT-4.1 ''" "str ''gpt-4-1''"]
  have 1: "modelNameToEnum (str '' GPT-4.1 '') = modelNameToEnum (str ''gpt-4-1'')"
    unfolding upper dash using keys same by blast
  from modelNameToEnum_registry_separators [of "str ''gpt-4.1''" "str ''gpt-4-1''"]
  have 2: "modelNameToEnum (str ''gpt-4.1'') = modelNameToEnum (str ''gpt-4-1'')"
    unfolding dot dash using keys same by blast
  from modelNameToEnum_registry_separators [of _ _ "str ''Claude-3.5-Haiku-20241022''"]
  have 3: "modelNameToEnum (str ''Claude-3.5-Haiku-20241022'')
       = EnumMember (ModelEnum ''CLAUDE_3_5_SONNET_20241022'')"
    unfolding haiku using no_key no_property by blast
  from 1 2 3 show ?thesis by blast
qed

section \<open>Claims about the resolution of the Gemini names\<close>

lemma lookup_gemini_base: "map_of MODEL_NAME_TO_ENUM ''gemini-3.0-pro'' = None"
  by code_simp

lemma lookup_gemini_high:
  "map_of MODEL_NAME_TO_ENUM ''gemini-3-0-pro-high'' = Some (ModelEnum ''GEMINI_3_0_PRO_HIGH'')"
  by code_simp

lemma canonical_default:
  "map_of ENUM_TO_MODEL_NAME (ModelEnum ''CLAUDE_3_5_SONNET_20241022'') = Some ''claude-3.5-sonnet''"
  by code_simp

lemma canonical_gemini_high:
  "map_of ENUM_TO_MODEL_NAME (ModelEnum ''GEMINI_3_0_PRO_HIGH'') = Some ''gemini-3.0-pro-high''"
  by code_simp

lemma gemini_names:
  "trim (toLowerCase (str ''gemini-3.0-pro'')) = str ''gemini-3.0-pro''"
  "trim (toLowerCase (str ''gemini-3-0-pro-high'')) = str ''gemini-3-0-pro-high''"
  by (simp_all add: name_eval)

text \<open>
  C5 fails on models.ts.  The table has no key \<open>gemini-3.0-pro\<close>: the name resolves to
  the default member, whose canonical name is \<open>claude-3.5-sonnet\<close>.  The name
  \<open>gemini-3-0-pro-high\<close> is a key of its own and resolves to the member
  \<open>GEMINI_3_0_PRO_HIGH\<close>, whose canonical name is \<open>gemini-3.0-pro-high\<close>; no variant is
  split off, and no function of the file takes a variant.  The unit test
  tests/unit/variant.test.ts expects the canonical name \<open>gemini-3.0-pro\<close> for both names,
  with the variant \<open>high\<close> for the second, and the README lists \<open>gemini-3.0-pro\<close> as a
  model with variants.
\<close>

theorem modelNameToEnum_gemini_names:
  "str ''gemini-3.0-pro'' \<notin> set getSupportedModels
   \<and> modelNameToEnum (str ''gemini-3.0-pro'') = EnumMember (ModelEnum ''CLAUDE_3_5_SONNET_20241022'')
   \<and> enumToModelName (ModelEnum ''CLAUDE_3_5_SONNET_20241022'') = str ''claude-3.5-sonnet''
   \<and> modelNameToEnum (str ''gemini-3-0-pro-high'') = EnumMember (ModelEnum ''GEMINI_3_0_PRO_HIGH'')
   \<and> enumToModelName (ModelEnum ''GEMINI_3_0_PRO_HIGH'') = str ''gemini-3.0-pro-high''"
proof (intro conjI)
  show "str ''gemini-3.0-pro'' \<notin> set getSupportedModels"
    using lookup_gemini_base by (rule unsupported_by_lookup)
  have "str ''gemini-3.0-pro'' \<notin> set (map str objectPrototypeKeys)"
    by (simp add: objectPrototypeKeys_def str_eq_iff)
  then show "modelNameToEnum (str ''gemini-3.0-pro'')
      = EnumMember (ModelEnum ''CLAUDE_3_5_SONNET_20241022'')"
    by (simp add: modelNameToEnum_def gemini_names ownProperty_str lookup_gemini_base)
  show "enumToModelName (ModelEnum ''CLAUDE_3_5_SONNET_20241022'') = str ''claude-3.5-sonnet''"
    by (simp add: enumToModelName_def canonical_default)
  show "modelNameToEnum (str ''gemini-3-0-pro-high'') = EnumMember (ModelEnum ''GEMINI_3_0_PRO_HIGH'')"
    by (simp add: modelNameToEnum_def gemini_names ownProperty_str lookup_gemini_high)
  show "enumToModelName (ModelEnum ''GEMINI_3_0_PRO_HIGH'') = str ''gemini-3.0-pro-high''"
    by (simp add: enumToModelName_def canonical_gemini_high)
qed

section \<open>Claims about the streaming functions\<close>

lemma settle_settled: "promise (settle outcome s) \<noteq> None"
  by (simp add: settle_def)

lemma settle_pending: "promise s = None \<Longrightarrow> promise (settle outcome s) = Some outcome"
  by (simp add: settle_def)

lemma settle_keeps: "promise s = Some r \<Longrightarrow> promise (settle outcome s) = Some r"
  by (simp add: settle_def)

lemma streamChat_snoc:
  "streamChat rt (events @ [ev]) = streamChatStep rt (streamChat rt events) ev"
  by (simp add: streamChat_def)

text \<open>
  The promise-based function does bound the call: when the timer fires on a pending call,
  the Promise is resolved with the texts collected so far, joined.
\<close>

lemma streamChat_timeout_resolves:
  assumes "uncaught (streamChat rt events) = None"
    and "promise (streamChat rt events) = None"
  shows "promise (streamChat rt (events @ [Elapsed120s]))
       = Some (Inr (concat (chunks (streamChat rt events))))"
  using assms
  by (simp add: streamChat_snoc streamChatStep_def Let_def settle_pending)

lemma generator_idle:
  assumes "handlerFault s = None" and "\<not> finished s" and "ended s = None"
    and "chunkQueue s = []"
  shows "foldl (generatorStep rt) s (replicate n [Elapsed120s]) = s"
proof (induction n)
  case 0
  show ?case by simp
next
  case (Suc n)
  have "generatorStep rt s [Elapsed120s] = s"
    using assms
    by (simp add: generatorStep_def generatorHandlerStep_def generatorResume_def drainQueue_def)
  with Suc show ?case by simp
qed

definition helloChunk :: buffer where
  "helloChunk = map of_char ''* Hello''"

text \<open>
  C8 fails for \<open>streamChatGenerator\<close>.  The stream delivers one chunk from which the
  extractor reads \<open>Hello\<close> and then neither ends nor fails.  When 120000 ms have passed,
  \<open>streamChat\<close> has resolved its Promise with \<open>Hello\<close>; \<open>streamChatGenerator\<close> has yielded
  \<open>Hello\<close> and is still suspended, then and after any number of further such periods.
\<close>

theorem streamChatGenerator_unbounded:
  "promise (streamChat \<lparr>utf8Decode = decodeAscii, decodeURIComponent = Inr\<rparr>
             [Connect, Data helloChunk, Elapsed120s])
     = Some (Inr (str ''Hello''))
   \<and> streamChatGenerator \<lparr>utf8Decode = decodeAscii, decodeURIComponent = Inr\<rparr>
         ([[Connect], [Data helloChunk]] @ replicate n [Elapsed120s])
     = Suspended [str ''Hello'']"
proof
  let ?rt = "\<lparr>utf8Decode = decodeAscii, decodeURIComponent = Inr\<rparr>"
  have hello: "extractTextFromChunk decodeAscii helloChunk = Inr (str ''Hello'')"
    by (simp add: helloChunk_def extractTextFromChunk_def arrayAt_def extract_eval)
  have nonempty: "str ''Hello'' \<noteq> []"
    by (simp add: str_def)
  show "promise (streamChat ?rt [Connect, Data helloChunk, Elapsed120s])
      = Some (Inr (str ''Hello''))"
    by (simp add: streamChat_def streamChatStep_def chatStart_def settle_def hello nonempty Let_def)
  let ?s = "foldl (generatorStep ?rt) generatorStart [[Connect], [Data helloChunk]]"
  have s: "?s = \<lparr>chunkQueue = [], yielded = [str ''Hello''], finished = False, failure = None,
                  clientClosed = False, handlerFault = None, ended = None\<rparr>"
    by (simp add: generatorStep_def generatorHandlerStep_def generatorResume_def
          generatorStart_def drainQueue_def hello nonempty)
  have "foldl (generatorStep ?rt) ?s (replicate n [Elapsed120s]) = ?s"
    by (rule generator_idle) (unfold s, simp_all)
  then show "streamChatGenerator ?rt
         ([[Connect], [Data helloChunk]] @ replicate n [Elapsed120s])
     = Suspended [str ''Hello'']"
    unfolding streamChatGenerator_def foldl_append
    by (simp only: s) (simp add: generatorOutcome_def)
qed

section \<open>Properties of the tool-call planner\<close>










text \<open>
  \<open>normalizeToolArguments\<close> throws exactly when the value has more levels than the stack
  has room for, and then a \<open>RangeError\<close>.
\<close>

lemma mapResult_Inr:
  "(\<exists>ys. mapResult f xs = Inr ys) \<longleftrightarrow> (\<forall>x \<in> set xs. \<exists>y. f x = Inr y)"
  by (induction xs) (auto split: sum.splits)

lemma mapResult_Inl:
  "mapResult f xs = Inl e \<Longrightarrow> \<exists>x \<in> set xs. f x = Inl e"
  by (induction xs) (auto split: sum.splits)

lemma foldr_max_le: "foldr max (map f xs) 0 \<le> (n::nat) \<longleftrightarrow> (\<forall>x \<in> set xs. f x \<le> n)"
  by (induction xs) auto

lemma normalizeValue_room: "(\<exists>r. normalizeValue room v = Inr r) \<longleftrightarrow> nesting v \<le> room"
proof (induction room arbitrary: v)
  case 0
  show ?case by (cases v) simp_all
next
  case (Suc room)
  show ?case
  proof (cases v)
    case (JArray xs)
    have "(\<exists>ys. mapResult (normalizeValue room) xs = Inr ys) \<longleftrightarrow> (\<forall>x \<in> set xs. nesting x \<le> room)"
      by (simp add: mapResult_Inr Suc.IH)
    then show ?thesis
      by (auto simp: JArray foldr_max_le split: sum.splits)
  next
    case (JObject ms)
    let ?f = "\<lambda>(k, v). case normalizeValue room v of Inl e \<Rightarrow> Inl e | Inr w \<Rightarrow> Inr (k, w)"
    have each: "(\<exists>y. ?f m = Inr y) \<longleftrightarrow> nesting (snd m) \<le> room" for m
      using Suc.IH [of "snd m"] by (cases m) (auto split: sum.splits)
    have "(\<exists>ys. mapResult ?f ms = Inr ys) \<longleftrightarrow> (\<forall>m \<in> set ms. \<exists>y. ?f m = Inr y)"
      by (rule mapResult_Inr)
    also have "\<dots> \<longleftrightarrow> (\<forall>m \<in> set ms. nesting (snd m) \<le> room)"
      using each by blast
    finally have "(\<exists>ys. mapResult ?f ms = Inr ys) \<longleftrightarrow> (\<forall>m \<in> set ms. nesting (snd m) \<le> room)" .
    then show ?thesis
      by (auto simp: JObject foldr_max_le split: sum.splits)
  qed (auto split: sum.splits)
qed

lemma normalizeValue_RangeError: "normalizeValue room v = Inl e \<Longrightarrow> e = RangeError"
proof (induction room arbitrary: v)
  case 0
  then show ?case by simp
next
  case (Suc room)
  show ?case
  proof (cases v)
    case (JArray xs)
    with Suc.prems have "mapResult (normalizeValue room) xs = Inl e"
      by (auto split: sum.splits)
    from mapResult_Inl [OF this] Suc.IH show ?thesis by blast
  next
    case (JObject ms)
    let ?f = "\<lambda>(k, v). case normalizeValue room v of Inl e \<Rightarrow> Inl e | Inr w \<Rightarrow> Inr (k, w)"
    from JObject Suc.prems have "mapResult ?f ms = Inl e"
      by (auto split: sum.splits)
    from mapResult_Inl [OF this] obtain w :: json where "normalizeValue room w = Inl e"
      by (auto split: sum.splits)
    with Suc.IH show ?thesis by blast
  qed (use Suc.prems in \<open>auto split: if_splits sum.splits\<close>)
qed






text \<open>
  Conversely, a plan in JSON whose one call has arguments with more levels than the stack
  has room for makes the \<open>try\<close> block throw.
\<close>

lemma planOfParsed_overflow:
  assumes "room < nesting args"
  shows "planOfParsed room
           (JObject [(str ''action'', JString (str ''tool_call'')),
                     (str ''tool_calls'',
                      JArray [JObject [(str ''name'', JString name),
                                       (str ''arguments'', args)]])])
         = Inl RangeError"
proof -
  from assms normalizeValue_room [of room args] obtain e where "normalizeValue room args = Inl e"
    by (cases "normalizeValue room args") auto
  with normalizeValue_RangeError [OF this] have "normalizeValue room args = Inl RangeError"
    by simp
  then show ?thesis
    by (simp add: planOfParsed_def namedCall_def toToolCall_def normalizeToolArguments_def
          str_eq_iff)
qed

section \<open>Claims about the tool-call planner\<close>


















text \<open>
  Claim C7.  \<open>parseToolCallPlan\<close> throws nothing.  When the direct parse gives no plan
  and the scan for tagged calls gives none, the plan is null; and when the plan is null,
  \<open>handleToolPlanning\<close> answers with the status 200 and a completion whose content is the
  text that was collected, unchanged, and whose finish reason is \<open>stop\<close>.  Whatever the
  collected text is, \<open>handleToolPlanning\<close> returns a response.
\<close>

theorem handleToolPlanning_absorbs_parse_failure:
  assumes "start = indexOf output (cu CHR ''{'')"
    and "end' = lastIndexOf output (cu CHR ''}'')"
  shows "(\<exists>plan. parseToolCallPlan room output = Inr plan)
       \<and> ((\<forall>p. directParse room (slice output start (end' + 1)) \<noteq> Inr (Some p))
            \<and> taggedParse room output = None
          \<longrightarrow> parseToolCallPlan room output = Inr None)
       \<and> (parseToolCallPlan room output = Inr None
          \<longrightarrow> handleToolPlanning clock model room (Inr output) =
                Inr \<lparr>status = 200,
                     body = \<lparr>completionTime = clock 0,
                             created = clock 1 div 1000,
                             completionModel = model,
                             messageContent = output,
                             messageToolCalls = None,
                             finishReason = FinishStop\<rparr>\<rparr>)
       \<and> (\<exists>response. handleToolPlanning clock model room (Inr output) = Inr response)"
proof -
  have total: "\<exists>plan. parseToolCallPlan room output = Inr plan"
    by (simp add: parseToolCallPlan_def Let_def split: sum.splits)
  have null: "parseToolCallPlan room output = Inr None"
    if "\<forall>p. directParse room (slice output start (end' + 1)) \<noteq> Inr (Some p)"
      and "taggedParse room output = None"
  proof (cases "directParse room (slice output start (end' + 1))")
    case (Inl e)
    with that assms show ?thesis by (simp add: parseToolCallPlan_def Let_def)
  next
    case (Inr plan)
    with that have "plan = None" by (cases plan) auto
    with Inr assms show ?thesis by (simp add: parseToolCallPlan_def Let_def)
  qed
  have raw: "handleToolPlanning clock model room (Inr output) =
                Inr \<lparr>status = 200,
                     body = \<lparr>completionTime = clock 0,
                             created = clock 1 div 1000,
                             completionModel = model,
                             messageContent = output,
                             messageToolCalls = None,
                             finishReason = FinishStop\<rparr>\<rparr>"
    if "parseToolCallPlan room output = Inr None"
    using that by (simp add: handleToolPlanning_def)
  from total obtain plan where plan: "parseToolCallPlan room output = Inr plan" by blast
  have answered: "\<exists>response. handleToolPlanning clock model room (Inr output) = Inr response"
    using plan by (simp add: handleToolPlanning_def Let_def split: option.splits ToolCallPlan.splits)
  from total null raw answered show ?thesis by blast
qed

lemma proseOutput_direct:
  "directParse 8 (slice proseOutput (indexOf proseOutput (cu CHR ''{''))
                    (lastIndexOf proseOutput (cu CHR ''}'') + 1)) = Inl SyntaxError"
  by code_simp

lemma proseOutput_tagged: "taggedParse 8 proseOutput = None"
  by code_simp

lemma sampleClock_values: "sampleClock 0 = 1700000000000 \<and> sampleClock 1 div 1000 = 1700000000"
  by (simp add: sampleClock_def)

theorem handleToolPlanning_absorbs_parse_failure_witness:
  "parseToolCallPlan 8 proseOutput = Inr None
   \<and> handleToolPlanning sampleClock (str ''swe-1'') 8 (Inr proseOutput) =
       Inr \<lparr>status = 200,
            body = \<lparr>completionTime = 1700000000000,
                    created = 1700000000,
                    completionModel = str ''swe-1'',
                    messageContent = proseOutput,
                    messageToolCalls = None,
                    finishReason = FinishStop\<rparr>\<rparr>"
proof -
  note claim = handleToolPlanning_absorbs_parse_failure
                 [of _ proseOutput _ 8 sampleClock "str ''swe-1''", OF refl refl]
  have "\<forall>p. directParse 8 (slice proseOutput (indexOf proseOutput (cu CHR ''{''))
                             (lastIndexOf proseOutput (cu CHR ''}'') + 1)) \<noteq> Inr (Some p)"
    unfolding proseOutput_direct by simp
  with claim proseOutput_tagged have 1: "parseToolCallPlan 8 proseOutput = Inr None"
    by blast
  with claim have "handleToolPlanning sampleClock (str ''swe-1'') 8 (Inr proseOutput) =
       Inr \<lparr>status = 200,
            body = \<lparr>completionTime = sampleClock 0,
                    created = sampleClock 1 div 1000,
                    completionModel = str ''swe-1'',
                    messageContent = proseOutput,
                    messageToolCalls = None,
                    finishReason = FinishStop\<rparr>\<rparr>"
    by blast
  with 1 sampleClock_values show ?thesis by simp
qed

end
